theory Spec2Isabelle
  imports Complex_Main
begin

section \<open>Python and numpy values\<close>

text \<open>
  The two modules are numpy programs over float64 arrays. Floats are modelled as
  \<open>real\<close> (rounding and overflow are left out); the non-finite results numpy gives
  where a real number does not exist (division by zero) are the values of \<open>npfloat\<close>.
  An exception is a value \<open>Inl e\<close> of the result type.
\<close>

datatype error = ValueError | IndexError

datatype npfloat = Fin real | PInf | NInf | NaN

text \<open>Sequencing of calls that may raise: the first exception ends the computation.\<close>

definition bind_r :: "error + 'a \<Rightarrow> ('a \<Rightarrow> error + 'b) \<Rightarrow> error + 'b" where
  "bind_r m f = (case m of Inl e \<Rightarrow> Inl e | Inr x \<Rightarrow> f x)"

text \<open>\<open>a / b\<close> on numpy scalars: a warning and \<open>inf\<close>, \<open>-inf\<close> or \<open>nan\<close> where \<open>b\<close> is zero.\<close>

definition true_divide :: "real \<Rightarrow> real \<Rightarrow> npfloat" where
  "true_divide a b =
     (if b \<noteq> 0 then Fin (a / b) else if 0 < a then PInf else if a < 0 then NInf else NaN)"

text \<open>\<open>x > t\<close> for a float \<open>x\<close> and a finite \<open>t\<close>, and \<open>u > x\<close> for a finite \<open>u\<close>:
  every comparison with \<open>nan\<close> is False.\<close>

definition np_greater :: "npfloat \<Rightarrow> real \<Rightarrow> bool" where
  "np_greater x t = (case x of Fin r \<Rightarrow> t < r | PInf \<Rightarrow> True | NInf \<Rightarrow> False | NaN \<Rightarrow> False)"

definition exceeds :: "real \<Rightarrow> npfloat \<Rightarrow> bool" where
  "exceeds u x = (case x of Fin r \<Rightarrow> r < u | PInf \<Rightarrow> False | NInf \<Rightarrow> True | NaN \<Rightarrow> False)"

text \<open>\<open>np.sum\<close> of a boolean array counts its True entries.\<close>

definition count_true :: "bool list \<Rightarrow> nat" where
  "count_true bs = length (filter (\<lambda>b. b) bs)"

text \<open>
  Boolean-mask indexing of a one-dimensional array. \<open>a[mask]\<close> selects the entries where
  the mask is True and raises IndexError when the mask's length is not the array's.
  \<open>a[mask] = vs\<close> writes the values in order into those entries; it raises
  IndexError on a mask of the wrong length and ValueError when the number of
  values is neither the number of True entries nor one (a single value is broadcast).
\<close>

fun select :: "bool list \<Rightarrow> 'a list \<Rightarrow> 'a list" where
  "select (b # bs) (x # xs) = (if b then x # select bs xs else select bs xs)"
| "select _ _ = []"

definition mask_get :: "'a list \<Rightarrow> bool list \<Rightarrow> error + 'a list" where
  "mask_get a msk = (if length msk \<noteq> length a then Inl IndexError else Inr (select msk a))"

fun scatter :: "bool list \<Rightarrow> 'a list \<Rightarrow> 'a list \<Rightarrow> 'a list" where
  "scatter (b # bs) (x # xs) vs =
     (if b then (case vs of [] \<Rightarrow> x # scatter bs xs [] | v # vs' \<Rightarrow> v # scatter bs xs vs')
      else x # scatter bs xs vs)"
| "scatter _ xs _ = xs"

definition mask_set :: "'a list \<Rightarrow> bool list \<Rightarrow> 'a list \<Rightarrow> error + 'a list" where
  "mask_set a msk vs =
     (if length msk \<noteq> length a then Inl IndexError
      else if length vs = count_true msk then Inr (scatter msk a vs)
      else if length vs = 1 then Inr (scatter msk a (replicate (count_true msk) (hd vs)))
      else Inl ValueError)"

definition mask_fill :: "'a list \<Rightarrow> bool list \<Rightarrow> 'a \<Rightarrow> error + 'a list" where
  "mask_fill a msk v =
     (if length msk \<noteq> length a then Inl IndexError
      else Inr (scatter msk a (replicate (count_true msk) v)))"

text \<open>
  \<open>np.interp(x, xp, fp)\<close> for increasing sample points \<open>xp\<close>: \<open>fp[0]\<close> left of the
  first point, \<open>fp[-1]\<close> at and right of the last one, and between two neighbouring points
  the line through them. It raises ValueError when \<open>xp\<close> is empty or \<open>fp\<close> has another
  length.
\<close>

fun interp_seg :: "real \<Rightarrow> real list \<Rightarrow> real list \<Rightarrow> real" where
  "interp_seg x (x0 # x1 # xp) (f0 # f1 # fp) =
     (if x < x1 then (f1 - f0) / (x1 - x0) * (x - x0) + f0
      else interp_seg x (x1 # xp) (f1 # fp))"
| "interp_seg x xp (f0 # fp) = f0"
| "interp_seg x xp [] = 0"

definition interp1 :: "real list \<Rightarrow> real list \<Rightarrow> real \<Rightarrow> real" where
  "interp1 xp fp x =
     (if x < hd xp then hd fp else if last xp \<le> x then last fp else interp_seg x xp fp)"

definition np_interp :: "real list \<Rightarrow> real list \<Rightarrow> real list \<Rightarrow> error + real list" where
  "np_interp xs xp fp =
     (if xp = [] \<or> length fp \<noteq> length xp then Inl ValueError else Inr (map (interp1 xp fp) xs))"

definition np_arange :: "nat \<Rightarrow> real list" where
  "np_arange n = map real [0..<n]"

section \<open>The random source\<close>

text \<open>
  \<open>np.random\<close> is a stream of variates; the world records how many have been drawn.
  The source \<open>src k\<close> is the \<open>k\<close>-th variate as a uniform number of \<open>[0, 1)\<close>.
  \<open>np.random.uniform(size=n)\<close> takes the next \<open>n\<close> and raises ValueError on a negative
  size. \<open>np.random.exponential(scale)\<close> takes one variate per scale and returns
  \<open>scale * -log(1 - u)\<close>; it raises ValueError on a negative scale.
  The world also holds the array buffers a call allocates and the log of the
  collaborators it invoked.
\<close>

datatype call = TauExit | SampleRange | SampleShowerEnergies | Voltage nat

record world =
  draws :: nat
  heap :: "real list list list"
  calls :: "call list"

definition random_uniform :: "(nat \<Rightarrow> real) \<Rightarrow> int \<Rightarrow> world \<Rightarrow> error + (real list \<times> world)" where
  "random_uniform src n w =
     (if n < 0 then Inl ValueError
      else Inr (map src [draws w ..< draws w + nat n], w\<lparr>draws := draws w + nat n\<rparr>))"

definition random_exponential ::
  "(nat \<Rightarrow> real) \<Rightarrow> real list \<Rightarrow> world \<Rightarrow> error + (real list \<times> world)" where
  "random_exponential src scales w =
     (if list_ex (\<lambda>s. s < 0) scales then Inl ValueError
      else Inr (map2 (\<lambda>s k. s * (- ln (1 - src k))) scales [draws w ..< draws w + length scales],
                w\<lparr>draws := draws w + length scales\<rparr>))"

section \<open>tauola.py: the decay sampler\<close>

text \<open>
  A row of the decay file \<open>tauola_decay.dat\<close>. The file is read once on import and is
  not part of the sources, so the table is a parameter of every function here.
\<close>

record decay =
  nu_tau :: real
  nu_mu :: real
  nu_e :: real
  hadron :: real
  muon :: real
  electron :: real

text \<open>The enumeration \<open>ShowerType\<close>, as the docstring of \<open>sample_energy_fraction\<close>
  gives it: \<open>0 == Hadronic, 1 == Electromagnetic\<close>.\<close>

definition Hadronic :: int where
  "Hadronic = 0"

definition Electromagnetic :: int where
  "Electromagnetic = 1"

definition Nem :: "decay list \<Rightarrow> nat" where
  "Nem decays = count_true (map (\<lambda>d. 0 < electron d) decays)"

definition Nhad :: "decay list \<Rightarrow> nat" where
  "Nhad decays = count_true (map (\<lambda>d. 0 < hadron d) decays)"

definition Nshowers :: "decay list \<Rightarrow> nat" where
  "Nshowers decays = count_true (map (\<lambda>d. 0 < electron d \<or> 0 < hadron d) decays)"

definition Eem :: "decay list \<Rightarrow> real list" where
  "Eem decays = sort (select (map (\<lambda>d. 0 < electron d) decays) (map electron decays))"

definition Ehad :: "decay list \<Rightarrow> real list" where
  "Ehad decays = sort (select (map (\<lambda>d. 0 < hadron d) decays) (map hadron decays))"

definition sample_shower_type ::
  "(nat \<Rightarrow> real) \<Rightarrow> decay list \<Rightarrow> int \<Rightarrow> world \<Rightarrow> error + (int list \<times> world)" where
  "sample_shower_type src decays n w =
     bind_r (random_uniform src n w) (\<lambda>(u, w').
       let Pem = true_divide (real (Nem decays)) (real (Nshowers decays));
           stypes = replicate (nat n) 0
       in bind_r (mask_fill stypes (map (\<lambda>x. exceeds x Pem) u) Electromagnetic) (\<lambda>stypes'.
            Inr (stypes', w')))"

definition sample_energy_fraction ::
  "(nat \<Rightarrow> real) \<Rightarrow> decay list \<Rightarrow> int list \<Rightarrow> world \<Rightarrow> error + (real list \<times> world)" where
  "sample_energy_fraction src decays stypes w =
     bind_r (random_uniform src (int (length stypes)) w) (\<lambda>(u, w').
       let fractions = map (\<lambda>_. 0) u;
           emshowers = map (\<lambda>s. s = Electromagnetic) stypes;
           hadshowers = map (\<lambda>s. s = Hadronic) stypes
       in bind_r (mask_get u emshowers) (\<lambda>u_em.
          bind_r (np_interp (map (\<lambda>x. real (Nem decays) * x) u_em)
                    (np_arange (Nem decays)) (Eem decays)) (\<lambda>f_em.
          bind_r (mask_set fractions emshowers f_em) (\<lambda>fractions1.
          bind_r (mask_get u hadshowers) (\<lambda>u_had.
          bind_r (np_interp (map (\<lambda>x. real (Nhad decays) * x) u_had)
                    (np_arange (Nhad decays)) (Ehad decays)) (\<lambda>f_had.
          bind_r (mask_set fractions1 hadshowers f_had) (\<lambda>fractions2.
            Inr (fractions2, w'))))))))"

definition sample_tau_energies ::
  "(nat \<Rightarrow> real) \<Rightarrow> decay list \<Rightarrow> real \<Rightarrow> int \<Rightarrow> world \<Rightarrow> error + (real list \<times> world)" where
  "sample_tau_energies src decays Enu n w =
     bind_r (sample_shower_type src decays n w) (\<lambda>(stypes, w1).
     bind_r (sample_energy_fraction src decays stypes w1) (\<lambda>(Efrac, w2).
       Inr (map (\<lambda>f. Enu * f) Efrac, w2)))"

text \<open>A masked array: each entry is its datum and its mask bit (True hides the datum).\<close>

type_synonym marray = "(real \<times> bool) list"

text \<open>
  The product \<open>4.9e-17 * Etau\<close> of a number and a masked array: numpy computes it on
  the data and then puts the data of the first operand, the number \<open>4.9e-17\<close>, back
  under the mask, so the scale of a masked entry is \<open>4.9e-17\<close> whatever the datum
  hidden there.
\<close>

definition ma_rmul :: "real \<Rightarrow> marray \<Rightarrow> real list" where
  "ma_rmul a xs = map (\<lambda>e. if snd e then a else a * fst e) xs"

text \<open>Line 160: \<open>np.random.exponential\<close> reads the data of that product.\<close>

definition sample_range ::
  "(nat \<Rightarrow> real) \<Rightarrow> marray \<Rightarrow> world \<Rightarrow> error + (real list \<times> world)" where
  "sample_range src Etau w = random_exponential src (ma_rmul (49 / 10 ^ 18) Etau) w"

text \<open>
  The interpolation as the specification words it: linear interpolation of the abscissa
  \<open>x\<close> against the indices \<open>0..K-1\<close> of the array \<open>fp\<close>, an abscissa outside
  \<open>[0, K-1]\<close> taking the nearest end.
\<close>

definition lerp_index :: "real list \<Rightarrow> real \<Rightarrow> real" where
  "lerp_index fp x =
     (if x \<le> 0 then fp ! 0
      else if real (length fp - 1) \<le> x then fp ! (length fp - 1)
      else fp ! nat \<lfloor>x\<rfloor> + (fp ! (nat \<lfloor>x\<rfloor> + 1) - fp ! nat \<lfloor>x\<rfloor>) * (x - real (nat \<lfloor>x\<rfloor>)))"

text \<open>The fraction \<open>sample_energy_fraction\<close> gives a sample of type \<open>s\<close> whose uniform
  variate is \<open>u\<close>.\<close>

definition fraction_of :: "decay list \<Rightarrow> int \<Rightarrow> real \<Rightarrow> real" where
  "fraction_of decays s u =
     (if s = Hadronic then interp1 (np_arange (Nhad decays)) (Ehad decays) (real (Nhad decays) * u)
      else if s = Electromagnetic
        then interp1 (np_arange (Nem decays)) (Eem decays) (real (Nem decays) * u)
      else 0)"

text \<open>The label \<open>sample_shower_type\<close> gives a sample whose uniform variate is \<open>u\<close>.\<close>

definition label_of :: "decay list \<Rightarrow> real \<Rightarrow> int" where
  "label_of decays u =
     (if exceeds u (true_divide (real (Nem decays)) (real (Nshowers decays)))
      then Electromagnetic else Hadronic)"

text \<open>
  Modelled from the spec: \<open>tauola.sample_shower_energies\<close>, the function \<open>calculate\<close>
  calls on the array of exiting tau energies. \<open>tauola.py\<close> does not define it: the
  module has the single-energy \<open>sample_tau_energies\<close> only. The specification asks for
  the two-step sampling of \<open>sample_tau_energies\<close> applied per element of the array,
  one shower energy per tau energy; the count argument of the call is the array's size
  and selects nothing further.
\<close>

fun sample_shower_energies ::
  "(nat \<Rightarrow> real) \<Rightarrow> decay list \<Rightarrow> real list \<Rightarrow> int \<Rightarrow> world \<Rightarrow> error + (real list \<times> world)" where
  "sample_shower_energies src decays [] n w = Inr ([], w)"
| "sample_shower_energies src decays (e # es) n w =
     bind_r (sample_tau_energies src decays e 1 w) (\<lambda>(E1, w1).
     bind_r (sample_shower_energies src decays es n w1) (\<lambda>(rest, w2).
       Inr (E1 @ rest, w2)))"

text \<open>
  Modelled from the spec: the same absent function as \<open>calculate\<close> calls it at line 93,
  on the masked array of tau energies and at a given count of draws. The element-wise
  sampler runs on the data of the array; what a masked energy gives the specification
  does not say.
\<close>

definition tauola_sample_shower_energies_spec ::
  "(nat \<Rightarrow> real) \<Rightarrow> decay list \<Rightarrow> marray \<Rightarrow> int \<Rightarrow> nat \<Rightarrow> error + (real list \<times> nat)" where
  "tauola_sample_shower_energies_spec src decays E n d =
     bind_r (sample_shower_energies src decays (map fst E) n \<lparr>draws = d, heap = [], calls = []\<rparr>)
       (\<lambda>(Es, w'). Inr (Es, draws w'))"

section \<open>effective_area.py: array values\<close>

type_synonym vec3 = "real \<times> real \<times> real"

definition vadd :: "vec3 \<Rightarrow> vec3 \<Rightarrow> vec3" where
  "vadd a b = (case a of (x, y, z) \<Rightarrow> case b of (x', y', z') \<Rightarrow> (x + x', y + y', z + z'))"

definition vsub :: "vec3 \<Rightarrow> vec3 \<Rightarrow> vec3" where
  "vsub a b = (case a of (x, y, z) \<Rightarrow> case b of (x', y', z') \<Rightarrow> (x - x', y - y', z - z'))"

definition vscale :: "real \<Rightarrow> vec3 \<Rightarrow> vec3" where
  "vscale l a = (case a of (x, y, z) \<Rightarrow> (l * x, l * y, l * z))"

text \<open>A vector minus a scalar: numpy subtracts the scalar from every component.\<close>

definition vsub_scalar :: "vec3 \<Rightarrow> real \<Rightarrow> vec3" where
  "vsub_scalar a r = (case a of (x, y, z) \<Rightarrow> (x - r, y - r, z - r))"

text \<open>\<open>np.linalg.norm\<close> of one vector.\<close>

definition vnorm :: "vec3 \<Rightarrow> real" where
  "vnorm a = (case a of (x, y, z) \<Rightarrow> sqrt (x * x + y * y + z * z))"

definition rad2deg :: "real \<Rightarrow> real" where
  "rad2deg x = x * 180 / pi"

text \<open>\<open>a[i]\<close> for a non-negative index: IndexError past the end.\<close>

definition np_index :: "'a list \<Rightarrow> nat \<Rightarrow> error + 'a" where
  "np_index a i = (if i < length a then Inr (a ! i) else Inl IndexError)"

text \<open>
  An element-wise operation on two one-dimensional arrays (or arrays of rows): equal
  lengths pair up, an array of length one is broadcast against the other, anything
  else raises ValueError.
\<close>

definition broadcast2 :: "('a \<Rightarrow> 'b \<Rightarrow> 'c) \<Rightarrow> 'a list \<Rightarrow> 'b list \<Rightarrow> error + 'c list" where
  "broadcast2 f xs ys =
     (if length xs = length ys then Inr (map2 f xs ys)
      else if length xs = 1 then Inr (map (f (hd xs)) ys)
      else if length ys = 1 then Inr (map (\<lambda>x. f x (hd ys)) xs)
      else Inl ValueError)"

text \<open>
  Masked arrays: \<open>np.sum\<close> and \<open>np.mean\<close> run over the entries that are not masked
  and give the masked constant (\<open>None\<close>) when there is none. \<open>np.array\<close> stores the
  masked constant as \<open>nan\<close>.
\<close>

definition unmasked :: "marray \<Rightarrow> real list" where
  "unmasked a = map fst (filter (\<lambda>e. \<not> snd e) a)"

definition ma_sum :: "marray \<Rightarrow> real option" where
  "ma_sum a = (if unmasked a = [] then None else Some (sum_list (unmasked a)))"

definition ma_mean :: "marray \<Rightarrow> real option" where
  "ma_mean a =
     (if unmasked a = [] then None
      else Some (sum_list (unmasked a) / real (length (unmasked a))))"

definition as_float :: "npfloat option \<Rightarrow> npfloat" where
  "as_float x = (case x of None \<Rightarrow> NaN | Some v \<Rightarrow> v)"

text \<open>
  Array buffers. A buffer of the heap holds the rows of a two-dimensional array; a
  one-dimensional array is a buffer of one row. A view \<open>(a, i)\<close> is row \<open>i\<close> of buffer
  \<open>a\<close>: \<open>Ptrig[i]\<close> is a view into the buffer of \<open>Ptrig\<close>, and writing through it
  changes \<open>Ptrig\<close>. Indexing a view with a boolean mask, \<open>v[mask]\<close>, copies the selected
  entries into a new buffer and returns a view of that copy.
\<close>

definition np_zeros2 :: "nat \<Rightarrow> nat \<Rightarrow> world \<Rightarrow> nat \<times> world" where
  "np_zeros2 r k w = (length (heap w), w\<lparr>heap := heap w @ [replicate r (replicate k 0)]\<rparr>)"

definition row_view :: "nat \<Rightarrow> nat \<Rightarrow> world \<Rightarrow> error + (nat \<times> nat)" where
  "row_view a i w = (if i < length (heap w ! a) then Inr (a, i) else Inl IndexError)"

definition view_read :: "world \<Rightarrow> nat \<times> nat \<Rightarrow> real list" where
  "view_read w v = heap w ! fst v ! snd v"

definition view_write :: "nat \<times> nat \<Rightarrow> real list \<Rightarrow> world \<Rightarrow> world" where
  "view_write v xs w = w\<lparr>heap := (heap w)[fst v := (heap w ! fst v)[snd v := xs]]\<rparr>"

definition view_setitem_mask :: "nat \<times> nat \<Rightarrow> bool list \<Rightarrow> real list \<Rightarrow> world \<Rightarrow> error + world" where
  "view_setitem_mask v msk vs w =
     bind_r (mask_set (view_read w v) msk vs) (\<lambda>xs. Inr (view_write v xs w))"

definition view_fill_mask :: "nat \<times> nat \<Rightarrow> bool list \<Rightarrow> real \<Rightarrow> world \<Rightarrow> error + world" where
  "view_fill_mask v msk x w =
     bind_r (mask_fill (view_read w v) msk x) (\<lambda>xs. Inr (view_write v xs w))"

definition view_getitem_mask :: "nat \<times> nat \<Rightarrow> bool list \<Rightarrow> world \<Rightarrow> error + ((nat \<times> nat) \<times> world)" where
  "view_getitem_mask v msk w =
     bind_r (mask_get (view_read w v) msk) (\<lambda>xs.
       Inr ((length (heap w), 0), w\<lparr>heap := heap w @ [[xs]]\<rparr>))"

section \<open>effective_area.py: the event loop\<close>

text \<open>
  The arguments of \<open>calculate\<close>. \<open>Ntrials\<close> is its argument \<open>N\<close>, the number of trials
  asked of the geometry; it is one integer here (the source also admits an array).
\<close>

record 'f params =
  ra :: real
  dec :: real
  lat :: "real list"
  lon :: "real list"
  altitude :: "real list"
  orientations_in :: "real list"
  fov_in :: "'f list"
  maxview :: real
  Ntrials :: int
  antennas :: int
  freqs :: "real list"
  trigger_SNR :: real

text \<open>
  What \<open>calculate\<close> reads of the object \<open>geometry.geometric_area\<close> returns
  (\<open>stations_geocentric\<close> is \<open>Ag.stations["geocentric"]\<close>).
\<close>

record 'f batch =
  emergence :: "real list"
  trials :: "vec3 list"
  axis :: vec3
  area :: real
  dot :: "real list"
  stations_geocentric :: "vec3 list"
  stations_geodetic :: "vec3 list"
  orientations :: "real list"
  fov :: "'f list"
  dbeacon :: "real list list"

text \<open>The sixteen arguments of the voltage model, in the order of the call.\<close>

record 'f voltage_args =
  v_decay_view :: "real list"
  v_exit_zenith :: "real list"
  v_decay_altitude :: "real list"
  v_decay_length :: "real list"
  v_decay_zenith :: "real list"
  v_decay_azimuth :: "real list"
  v_distance_to_decay :: "real list"
  v_detector_altitude :: real
  v_geodetic :: vec3
  v_dbeacon :: "real list"
  v_freqs :: "real list"
  v_Eshower :: "real list"
  v_antennas :: int
  v_theta :: "real list"
  v_phi_from_boresight :: "real list"
  v_fov :: 'f

text \<open>
  The collaborators, none of them in the sources: the functions of \<open>marmots.geometry\<close>
  and \<open>marmots.antenna\<close>, the two callables \<open>tauexit\<close> and \<open>voltage\<close> passed to
  \<open>calculate\<close>, the constant \<open>Re\<close> of \<open>marmots.constants\<close>, and
  \<open>tauola.sample_shower_energies\<close>, which \<open>tauola.py\<close> does not define; the last one
  is a sampler, so it reads and advances the count of draws. They are parameters:
  every theorem on \<open>calculate\<close> holds whatever they compute.
\<close>

record 'f collab =
  geometry_geometric_area ::
    "real \<Rightarrow> real \<Rightarrow> real list \<Rightarrow> real list \<Rightarrow> real list \<Rightarrow> real \<Rightarrow> real list \<Rightarrow> 'f list \<Rightarrow> int
      \<Rightarrow> 'f batch"
  tauexit :: "real list \<Rightarrow> marray \<times> marray"
  tauola_sample_shower_energies :: "marray \<Rightarrow> int \<Rightarrow> nat \<Rightarrow> error + (real list \<times> nat)"
  geometry_cartesian_to_spherical :: "vec3 list \<Rightarrow> vec3 list"
  geometry_decay_zenith_azimuth ::
    "vec3 list \<Rightarrow> vec3 \<Rightarrow> vec3 list \<Rightarrow> vec3 list \<Rightarrow> real list \<times> real list"
  antenna_Vrms :: "real list \<Rightarrow> int \<Rightarrow> real"
  geometry_view_angle :: "vec3 list \<Rightarrow> vec3 list \<Rightarrow> vec3 \<Rightarrow> real list list"
  geometry_decay_view :: "vec3 list \<Rightarrow> vec3 \<Rightarrow> vec3 \<Rightarrow> real list"
  geometry_obs_zenith_azimuth ::
    "vec3 \<Rightarrow> vec3 list \<Rightarrow> vec3 \<Rightarrow> vec3 list \<Rightarrow> real list \<times> real list"
  geometry_distance_to_horizon :: "real \<Rightarrow> real \<Rightarrow> real"
  geometry_horizon_angle :: "real \<Rightarrow> real \<Rightarrow> real"
  voltage :: "'f voltage_args \<Rightarrow> real list list"
  earth_Re :: real

text \<open>The local arrays of \<open>calculate\<close> that the loop over the stations reads.\<close>

record physics =
  Pexit :: marray
  Etau :: marray
  decay_length :: "real list"
  Eshower :: "real list"
  decay_point :: "vec3 list"
  decay_altitude :: "real list"
  exit_zenith :: "real list"
  decay_point_spherical :: "vec3 list"
  decay_zenith :: "real list"
  decay_azimuth :: "real list"
  vrms :: real
  ground_view :: "real list list"

text \<open>Lines 73 to 75: the batch of trials the call works on.\<close>

definition batch_of :: "'f collab \<Rightarrow> 'f params \<Rightarrow> 'f batch" where
  "batch_of c p =
     geometry_geometric_area c (ra p) (dec p) (lat p) (lon p) (altitude p) (maxview p)
       (orientations_in p) (fov_in p) (Ntrials p)"

text \<open>Line 87: the exit probabilities and tau energies of the batch.\<close>

definition exit_lookup :: "'f collab \<Rightarrow> 'f batch \<Rightarrow> marray \<times> marray" where
  "exit_lookup c Ag = tauexit c (map (\<lambda>e. 90 - rad2deg e) (emergence Ag))"

text \<open>Lines 87 to 115, up to the loop.\<close>

definition prepare ::
  "'f collab \<Rightarrow> (nat \<Rightarrow> real) \<Rightarrow> 'f params \<Rightarrow> 'f batch \<Rightarrow> world \<Rightarrow> error + (physics \<times> world)" where
  "prepare c src p Ag w =
     (let (Pexit', Etau') = exit_lookup c Ag;
          w1 = w\<lparr>calls := calls w @ [TauExit]\<rparr>
      in bind_r (sample_range src Etau' (w1\<lparr>calls := calls w1 @ [SampleRange]\<rparr>))
           (\<lambda>(decay_length', w2).
         bind_r (tauola_sample_shower_energies c Etau' (int (length decay_length')) (draws w2))
           (\<lambda>(Eshower', d3).
         let w3 = w2\<lparr>draws := d3, calls := calls w2 @ [SampleShowerEnergies]\<rparr> in
         bind_r (broadcast2 vadd (trials Ag) (map (\<lambda>l. vscale l (axis Ag)) decay_length'))
           (\<lambda>decay_point'.
         let decay_altitude' = map (\<lambda>q. vnorm q - earth_Re c) decay_point';
             exit_zenith' = map (\<lambda>e. pi / 2 - e) (emergence Ag);
             decay_point_spherical' = geometry_cartesian_to_spherical c decay_point';
             axis_spherical = geometry_cartesian_to_spherical c [axis Ag];
             (decay_zenith', decay_azimuth') =
                geometry_decay_zenith_azimuth c decay_point' (axis Ag)
                  decay_point_spherical' axis_spherical
         in Inr (\<lparr>Pexit = Pexit', Etau = Etau', decay_length = decay_length',
                   Eshower = Eshower', decay_point = decay_point',
                   decay_altitude = decay_altitude', exit_zenith = exit_zenith',
                   decay_point_spherical = decay_point_spherical',
                   decay_zenith = decay_zenith', decay_azimuth = decay_azimuth',
                   vrms = antenna_Vrms c (freqs p) (antennas p),
                   ground_view =
                     geometry_view_angle c (trials Ag) (stations_geocentric Ag) (axis Ag)\<rparr>,
                 w3)))))"

text \<open>Line 132: \<open>np.linalg.norm(Ag.stations["geocentric"][i] - Re)\<close>.\<close>

definition detector_altitude_of :: "real \<Rightarrow> vec3 \<Rightarrow> real" where
  "detector_altitude_of r g = vnorm (vsub_scalar g r)"

text \<open>
  What one pass of the loop computes before it writes to \<open>Ptrig\<close> (lines 120 to 156):
  the mask of the trials in sight and the signal-to-noise ratio of each of them.
\<close>

record trigger_eval =
  in_sight :: "bool list"
  distance_to_decay :: "real list"
  theta :: "real list"
  detector_altitude :: real
  SNR :: "npfloat list"

definition station_eval ::
  "'f collab \<Rightarrow> 'f params \<Rightarrow> 'f batch \<Rightarrow> physics \<Rightarrow> nat \<Rightarrow> error + trigger_eval" where
  "station_eval c p Ag ph i =
     bind_r (np_index (ground_view ph) i) (\<lambda>gv.
     let in_sight' = map (\<lambda>g. g \<le> maxview p) gv in
     bind_r (np_index (stations_geocentric Ag) i) (\<lambda>geoc.
     bind_r (mask_get (decay_point ph) in_sight') (\<lambda>dp.
     let distance_to_decay' = map (\<lambda>q. vnorm (vsub geoc q)) dp;
         decay_view = geometry_decay_view c dp (axis Ag) geoc in
     bind_r (np_index (stations_geodetic Ag) i) (\<lambda>geod.
     bind_r (mask_get (decay_point_spherical ph) in_sight') (\<lambda>dps.
     let (theta', phi) = geometry_obs_zenith_azimuth c geoc dp geod dps in
     bind_r (np_index (orientations Ag) i) (\<lambda>ori.
     let phi_from_boresight = map (\<lambda>f. f - ori) phi;
         detector_altitude' = detector_altitude_of (earth_Re c) geoc in
     bind_r (mask_get (decay_altitude ph) in_sight') (\<lambda>dalt.
     bind_r (mask_get (decay_length ph) in_sight') (\<lambda>dlen.
     bind_r (mask_get (decay_zenith ph) in_sight') (\<lambda>dzen.
     bind_r (mask_get (decay_azimuth ph) in_sight') (\<lambda>dazi.
     bind_r (np_index (dbeacon Ag) i) (\<lambda>dbi.
     bind_r (mask_get dbi in_sight') (\<lambda>db.
     bind_r (mask_get (Eshower ph) in_sight') (\<lambda>Esh.
     bind_r (np_index (fov Ag) i) (\<lambda>fovi.
     let V = voltage c
               \<lparr>v_decay_view = map rad2deg decay_view,
                v_exit_zenith = map rad2deg (exit_zenith ph),
                v_decay_altitude = dalt,
                v_decay_length = dlen,
                v_decay_zenith = map rad2deg dzen,
                v_decay_azimuth = map rad2deg dazi,
                v_distance_to_decay = distance_to_decay',
                v_detector_altitude = detector_altitude',
                v_geodetic = geod,
                v_dbeacon = db,
                v_freqs = freqs p,
                v_Eshower = Esh,
                v_antennas = antennas p,
                v_theta = map rad2deg theta',
                v_phi_from_boresight = map rad2deg phi_from_boresight,
                v_fov = fovi\<rparr>
     in Inr \<lparr>in_sight = in_sight', distance_to_decay = distance_to_decay',
              theta = theta', detector_altitude = detector_altitude',
              SNR = map (\<lambda>r. true_divide (sum_list r) (vrms ph)) V\<rparr>
     ))))))))))))))"

text \<open>Lines 162 to 178 and 186: the masks \<open>invisible\<close> and \<open>elev > 0.0\<close>.\<close>

definition horizon_masks ::
  "'f collab \<Rightarrow> trigger_eval \<Rightarrow> error + (bool list \<times> bool list)" where
  "horizon_masks c ev =
     (let elev = map (\<lambda>t. pi / 2 - t) (theta ev);
          horizon_distance =
            geometry_distance_to_horizon c (detector_altitude ev) (earth_Re c);
          beyond = map (\<lambda>d. horizon_distance < d) (distance_to_decay ev);
          below = map (\<lambda>e. e < geometry_horizon_angle c (detector_altitude ev) (earth_Re c)) elev
      in bind_r (broadcast2 (\<lambda>a b. a \<and> b) beyond below) (\<lambda>invisible.
           Inr (invisible, map (\<lambda>e. 0 < e) elev)))"

text \<open>
  One pass of the loop, for station \<open>i\<close>. Line 159 writes through the view \<open>Ptrig[i]\<close>.
  Lines 182 and 186 first evaluate \<open>Ptrig[i][in_sight]\<close>, a copy, and write the zeros
  into that copy.
\<close>

definition station ::
  "'f collab \<Rightarrow> 'f params \<Rightarrow> 'f batch \<Rightarrow> physics \<Rightarrow> nat \<Rightarrow> nat \<Rightarrow> world \<Rightarrow> error + world" where
  "station c p Ag ph Ptrig i w =
     bind_r (station_eval c p Ag ph i) (\<lambda>ev.
     let w1 = w\<lparr>calls := calls w @ [Voltage i]\<rparr> in
     bind_r (row_view Ptrig i w1) (\<lambda>v.
     bind_r (view_setitem_mask v (in_sight ev)
               (map (\<lambda>x. if np_greater x (trigger_SNR p) then 1 else 0) (SNR ev)) w1) (\<lambda>w2.
     bind_r (horizon_masks c ev) (\<lambda>(invisible, above).
     bind_r (row_view Ptrig i w2) (\<lambda>v1.
     bind_r (view_getitem_mask v1 (in_sight ev) w2) (\<lambda>(t1, w3).
     bind_r (view_fill_mask t1 invisible 0 w3) (\<lambda>w4.
     bind_r (row_view Ptrig i w4) (\<lambda>v2.
     bind_r (view_getitem_mask v2 (in_sight ev) w4) (\<lambda>(t2, w5).
     view_fill_mask t2 above 0 w5)))))))))"

fun for_stations :: "(nat \<Rightarrow> world \<Rightarrow> error + world) \<Rightarrow> nat list \<Rightarrow> world \<Rightarrow> error + world" where
  "for_stations body [] w = Inr w"
| "for_stations body (i # js) w = bind_r (body i w) (for_stations body js)"

text \<open>Line 188: \<open>Pdet = np.sum(Ptrig, axis=0) > 0\<close>, over the rows of the buffer.\<close>

definition detected :: "real list list \<Rightarrow> nat \<Rightarrow> bool list" where
  "detected rows k = map (\<lambda>j. 0 < sum_list (map (\<lambda>r. r ! j) rows)) [0..<k]"

text \<open>Lines 191 to 198: the four coefficients, as \<open>np.array\<close> stores them.\<close>

definition aggregate ::
  "'f params \<Rightarrow> 'f batch \<Rightarrow> marray \<Rightarrow> bool list \<Rightarrow> error + npfloat list" where
  "aggregate p Ag Pexit' Pdet =
     (let n_stations = length (stations_geocentric Ag);
          norm = real_of_int (Ntrials p * int n_stations);
          geometric = true_divide (area Ag * sum_list (dot Ag)) norm;
          pexit = map_option Fin (ma_mean Pexit');
          pdet = true_divide (real (count_true Pdet)) (real (length Pdet))
      in bind_r (broadcast2 (\<lambda>d e. (area Ag * d * fst e, snd e)) (dot Ag) Pexit') (\<lambda>a1.
         bind_r (broadcast2 (\<lambda>e b. (fst e * (if b then 1 else 0), snd e)) a1 Pdet) (\<lambda>a2.
         let effective_area = map_option (\<lambda>x. true_divide x norm) (ma_sum a2)
         in Inr [geometric, as_float pexit, pdet, as_float effective_area])))"

definition calculate ::
  "'f collab \<Rightarrow> (nat \<Rightarrow> real) \<Rightarrow> 'f params \<Rightarrow> world \<Rightarrow> error + (npfloat list \<times> world)" where
  "calculate c src p w =
     (let Ag = batch_of c p in
      if length (emergence Ag) = 0 then Inr ([Fin 0, Fin 0, Fin 0, Fin 0], w)
      else
        bind_r (prepare c src p Ag w) (\<lambda>(ph, w1).
        let n_stations = length (stations_geocentric Ag);
            (Ptrig, w2) = np_zeros2 n_stations (length (trials Ag)) w1
        in bind_r (for_stations (station c p Ag ph Ptrig) [0..<n_stations] w2) (\<lambda>w3.
           bind_r (aggregate p Ag (Pexit ph) (detected (heap w3 ! Ptrig) (length (trials Ag))))
             (\<lambda>out. Inr (out, w3)))))"

text \<open>
  Modelled from the spec: the collaborators of \<open>calculate\<close> with the absent
  \<open>tauola.sample_shower_energies\<close> filled in by the element-wise sampler, drawing from
  the stream \<open>src\<close> and the table \<open>decays\<close>.
\<close>

definition tauola_collab :: "(nat \<Rightarrow> real) \<Rightarrow> decay list \<Rightarrow> 'f collab \<Rightarrow> 'f collab" where
  "tauola_collab src decays c =
     c\<lparr>tauola_sample_shower_energies := tauola_sample_shower_energies_spec src decays\<rparr>"

text \<open>
  The detection indicator of trial \<open>j\<close> over the rows of the trigger buffer: some
  station's indicator is 1.
\<close>

definition any_station :: "real list list \<Rightarrow> nat \<Rightarrow> bool" where
  "any_station rows j = list_ex (\<lambda>r. r ! j = 1) rows"

text \<open>
  The shape of the trigger buffer \<open>Ptrig\<close> during the loop: buffer \<open>a\<close> of the heap has
  \<open>m\<close> rows of \<open>n\<close> entries, each entry 0 or 1.
\<close>

definition trigger_buffer :: "nat \<Rightarrow> nat \<Rightarrow> nat \<Rightarrow> world \<Rightarrow> bool" where
  "trigger_buffer a m n w =
     (a < length (heap w) \<and> length (heap w ! a) = m \<and>
      list_all (\<lambda>r. length r = n \<and> list_all (\<lambda>x. x = 0 \<or> x = 1) r) (heap w ! a))"



definition nonnegative_energies :: "'f collab \<Rightarrow> 'f batch \<Rightarrow> bool" where
  "nonnegative_energies c Ag = list_all (\<lambda>e. snd e \<or> 0 \<le> fst e) (snd (exit_lookup c Ag))"

section \<open>Example inputs\<close>

definition row :: "real \<Rightarrow> real \<Rightarrow> decay" where
  "row h e = \<lparr>nu_tau = 0, nu_mu = 0, nu_e = 0, hadron = h, muon = 0, electron = e\<rparr>"

definition decays_ex :: "decay list" where
  "decays_ex = [row (1/2) 0, row 0 (1/4), row (3/4) 0, row 0 0]"

definition src_ex :: "nat \<Rightarrow> real" where
  "src_ex k = (if even k then 1/4 else 3/4)"

definition w0 :: world where
  "w0 = \<lparr>draws = 0, heap = [], calls = []\<rparr>"

text \<open>
  A batch of trials seen from one station at the origin, and collaborators made of
  constants: every trial is in sight, the station sees every decay point at zenith angle
  \<open>th\<close>, the voltage model returns \<open>vv\<close> in one frequency channel, the noise floor is 1,
  the horizon is at distance 100 and angle 0, and the exit lookup returns the masked
  array \<open>Px\<close> with tau energies 0.
\<close>

definition batch_ex :: "vec3 list \<Rightarrow> real list \<Rightarrow> unit batch" where
  "batch_ex ts ds =
     \<lparr>emergence = map (\<lambda>_. 0) ts, trials = ts, axis = (0, 0, 1), area = 2, dot = ds,
      stations_geocentric = [(0, 0, 0)], stations_geodetic = [(0, 0, 0)],
      orientations = [0], fov = [()], dbeacon = [map (\<lambda>_. 0) ts]\<rparr>"

definition collab_ex :: "unit batch \<Rightarrow> marray \<Rightarrow> real \<Rightarrow> real \<Rightarrow> unit collab" where
  "collab_ex Ag Px th vv =
     \<lparr>geometry_geometric_area = (\<lambda>_ _ _ _ _ _ _ _ _. Ag),
      tauexit = (\<lambda>zs. (Px, map (\<lambda>_. (0, False)) zs)),
      tauola_sample_shower_energies = (\<lambda>E n d. Inr (map fst E, d)),
      geometry_cartesian_to_spherical = (\<lambda>xs. xs),
      geometry_decay_zenith_azimuth = (\<lambda>dp a s t. (map (\<lambda>_. 0) dp, map (\<lambda>_. 0) dp)),
      antenna_Vrms = (\<lambda>f a. 1),
      geometry_view_angle = (\<lambda>ts ss a. map (\<lambda>_. map (\<lambda>_. 0) ts) ss),
      geometry_decay_view = (\<lambda>dp a g. map (\<lambda>_. 0) dp),
      geometry_obs_zenith_azimuth = (\<lambda>g dp geo s. (map (\<lambda>_. th) dp, map (\<lambda>_. 0) dp)),
      geometry_distance_to_horizon = (\<lambda>h r. 100),
      geometry_horizon_angle = (\<lambda>h r. 0),
      voltage = (\<lambda>a. map (\<lambda>_. [vv]) (v_distance_to_decay a)),
      earth_Re = 1\<rparr>"

text \<open>The same collaborators with the exit lookup returning the tau energies \<open>Et\<close>.\<close>

definition collab_tau :: "unit batch \<Rightarrow> marray \<Rightarrow> marray \<Rightarrow> unit collab" where
  "collab_tau Ag Px Et = (collab_ex Ag Px 0 10)\<lparr>tauexit := (\<lambda>zs. (Px, Et))\<rparr>"

definition params_ex :: "int \<Rightarrow> unit params" where
  "params_ex n =
     \<lparr>ra = 0, dec = 0, lat = [0], lon = [0], altitude = [0], orientations_in = [0],
      fov_in = [()], maxview = 3 * pi / 180, Ntrials = n, antennas = 4,
      freqs = [35, 45, 55, 65, 75], trigger_SNR = 5\<rparr>"

section \<open>Facts about the array operations\<close>

lemma bind_r_Inr [simp]: "bind_r (Inr x) f = f x"
  by (simp add: bind_r_def)

lemma bind_r_Inl [simp]: "bind_r (Inl e) f = Inl e"
  by (simp add: bind_r_def)

lemma bind_r_eq_Inr: "bind_r m f = Inr y \<longleftrightarrow> (\<exists>x. m = Inr x \<and> f x = Inr y)"
  by (cases m) simp_all

lemma length_select: "length msk = length xs \<Longrightarrow> length (select msk xs) = count_true msk"
  by (induction msk xs rule: list_induct2) (simp_all add: count_true_def)

lemma select_map_filter: "select (map P xs) (map f xs) = map f (filter P xs)"
  by (induction xs) simp_all

lemma length_scatter [simp]: "length (scatter msk xs vs) = length xs"
  by (induction msk xs vs rule: scatter.induct) (simp_all split: list.splits)

lemma scatter_replicate:
  "length msk = length xs \<Longrightarrow>
   scatter msk xs (replicate (count_true msk) v) = map2 (\<lambda>b x. if b then v else x) msk xs"
  by (induction msk xs rule: list_induct2) (simp_all add: count_true_def)

lemma scatter_map_select:
  "length msk = length xs \<Longrightarrow> length xs = length us \<Longrightarrow>
   scatter msk xs (map f (select msk us)) =
     map (\<lambda>(b, x, u). if b then f u else x) (zip msk (zip xs us))"
  by (induction msk xs us rule: list_induct3) simp_all

lemma interp_seg_arange:
  "real k \<le> x \<Longrightarrow> x < real (k + length fp - 1) \<Longrightarrow>
   interp_seg x (map real [k..<k + length fp]) fp =
     fp ! (nat \<lfloor>x\<rfloor> - k) + (fp ! (nat \<lfloor>x\<rfloor> - k + 1) - fp ! (nat \<lfloor>x\<rfloor> - k)) * (x - real (nat \<lfloor>x\<rfloor>))"
proof (induction fp arbitrary: k)
  case Nil
  then show ?case by simp
next
  case (Cons f0 fp)
  show ?case
  proof (cases fp)
    case Nil
    with Cons.prems show ?thesis by simp
  next
    case (Cons f1 rest)
    have upt: "[k..<k + length (f0 # fp)] = k # Suc k # [Suc (Suc k)..<Suc k + length fp]"
      using Cons by (simp add: upt_rec)
    show ?thesis
    proof (cases "x < real (Suc k)")
      case True
      with Cons.prems have "nat \<lfloor>x\<rfloor> = k"
        by (metis floor_of_nat floor_unique nat_int of_int_of_nat_eq of_nat_Suc add.commute)
      with True Cons upt show ?thesis by simp
    next
      case False
      then have le: "real (Suc k) \<le> x" by simp
      have lt: "x < real (Suc k + length fp - 1)" using Cons.prems by simp
      have fl: "Suc k \<le> nat \<lfloor>x\<rfloor>" using le by (simp add: le_nat_floor)
      have "interp_seg x (map real [k..<k + length (f0 # fp)]) (f0 # fp) =
            interp_seg x (map real [Suc k..<Suc k + length fp]) fp"
        using False Cons upt by (simp add: upt_rec)
      also have "\<dots> = fp ! (nat \<lfloor>x\<rfloor> - Suc k) + (fp ! (nat \<lfloor>x\<rfloor> - Suc k + 1) - fp ! (nat \<lfloor>x\<rfloor> - Suc k)) * (x - real (nat \<lfloor>x\<rfloor>))"
        using Cons.IH [OF le lt] .
      finally have eq: "interp_seg x (map real [k..<k + length (f0 # fp)]) (f0 # fp) =
          fp ! (nat \<lfloor>x\<rfloor> - Suc k) + (fp ! (nat \<lfloor>x\<rfloor> - Suc k + 1) - fp ! (nat \<lfloor>x\<rfloor> - Suc k)) * (x - real (nat \<lfloor>x\<rfloor>))" .
      from fl obtain j where j: "nat \<lfloor>x\<rfloor> = Suc k + j"
        using le_Suc_ex by blast
      show ?thesis unfolding eq j by simp
    qed
  qed
qed


lemma interp1_arange:
  assumes "fp \<noteq> []"
  shows "interp1 (np_arange (length fp)) fp x = lerp_index fp x"
proof -
  obtain m where K: "length fp = Suc m"
    using assms by (cases fp) simp_all
  have hd0: "hd (np_arange (Suc m)) = 0"
    by (simp add: np_arange_def upt_conv_Cons del: upt_Suc)
  have lst: "last (np_arange (Suc m)) = real m"
    by (simp add: np_arange_def)
  have hdf: "hd fp = fp ! 0" using assms by (simp add: hd_conv_nth)
  have lastf: "last fp = fp ! m" using assms K by (simp add: last_conv_nth)
  consider (left) "x < 0" | (right) "real m \<le> x" | (mid) "0 \<le> x" "x < real m"
    by linarith
  then show ?thesis
  proof cases
    case left
    then show ?thesis unfolding interp1_def lerp_index_def K hd0 lst hdf by simp
  next
    case right
    show ?thesis
    proof (cases "x \<le> 0")
      case True
      with right have "real m \<le> 0" by linarith
      then have "m = 0" by simp
      then have l0: "last fp = fp ! 0" using lastf by simp
      show ?thesis using right True unfolding interp1_def lerp_index_def K hd0 lst hdf l0
        by simp
    next
      case False
      then show ?thesis using right unfolding interp1_def lerp_index_def K hd0 lst hdf lastf
        by simp
    qed
  next
    case mid
    have "interp_seg x (map real [0..<0 + length fp]) fp =
      fp ! (nat \<lfloor>x\<rfloor> - 0) + (fp ! (nat \<lfloor>x\<rfloor> - 0 + 1) - fp ! (nat \<lfloor>x\<rfloor> - 0)) * (x - real (nat \<lfloor>x\<rfloor>))"
      by (rule interp_seg_arange) (use mid K in simp_all)
    then have seg: "interp_seg x (np_arange (Suc m)) fp =
      fp ! nat \<lfloor>x\<rfloor> + (fp ! (nat \<lfloor>x\<rfloor> + 1) - fp ! nat \<lfloor>x\<rfloor>) * (x - real (nat \<lfloor>x\<rfloor>))"
      unfolding np_arange_def K by simp
    have x0: "x = 0 \<Longrightarrow> fp ! nat \<lfloor>x\<rfloor> + (fp ! (nat \<lfloor>x\<rfloor> + 1) - fp ! nat \<lfloor>x\<rfloor>) * (x - real (nat \<lfloor>x\<rfloor>)) = fp ! 0"
      by simp
    show ?thesis using mid x0 unfolding interp1_def lerp_index_def K hd0 lst seg
      by (auto simp del: of_nat_Suc)
  qed
qed

lemma lerp_index_bounds:
  assumes "fp \<noteq> []" and pos: "\<forall>f \<in> set fp. 0 < f"
  shows "0 < lerp_index fp x \<and> lerp_index fp x \<le> Max (set fp)"
proof -
  obtain m where K: "length fp = Suc m"
    using assms by (cases fp) simp_all
  have nth_ok: "\<And>i. i \<le> m \<Longrightarrow> 0 < fp ! i \<and> fp ! i \<le> Max (set fp)"
    using pos K by (simp add: Max_ge)
  consider (left) "x \<le> 0" | (right) "0 < x" "real m \<le> x" | (mid) "0 < x" "x < real m"
    by linarith
  then show ?thesis
  proof cases
    case left
    then show ?thesis using nth_ok [of 0] unfolding lerp_index_def K by simp
  next
    case right
    then show ?thesis using nth_ok [of m] unfolding lerp_index_def K by simp
  next
    case mid
    define j where "j = nat \<lfloor>x\<rfloor>"
    define t where "t = x - real j"
    have jx: "real j \<le> x" using mid by (simp add: j_def of_nat_floor)
    have j: "j + 1 \<le> m"
    proof -
      have "real j < real m" using mid jx by linarith
      then show ?thesis by simp
    qed
    have t0: "0 \<le> t" using jx by (simp add: t_def)
    have t1: "t < 1" unfolding t_def j_def using mid by linarith
    have a: "0 < fp ! j \<and> fp ! j \<le> Max (set fp)" using nth_ok [of j] j by simp
    have b: "0 < fp ! (j + 1) \<and> fp ! (j + 1) \<le> Max (set fp)" using nth_ok [of "j + 1"] j by simp
    have conv: "fp ! j + (fp ! (j + 1) - fp ! j) * t = (1 - t) * fp ! j + t * fp ! (j + 1)"
      by (simp add: algebra_simps)
    have lo: "0 < (1 - t) * fp ! j + t * fp ! (j + 1)"
    proof -
      have "0 < (1 - t) * fp ! j" using t1 a by simp
      moreover have "0 \<le> t * fp ! (j + 1)" using t0 b by simp
      ultimately show ?thesis by linarith
    qed
    have hi: "(1 - t) * fp ! j + t * fp ! (j + 1) \<le> Max (set fp)"
    proof -
      have "(1 - t) * fp ! j \<le> (1 - t) * Max (set fp)"
        using t1 a by (intro mult_left_mono) simp_all
      moreover have "t * fp ! (j + 1) \<le> t * Max (set fp)"
        using t0 b by (intro mult_left_mono) simp_all
      ultimately have "(1 - t) * fp ! j + t * fp ! (j + 1) \<le> (1 - t) * Max (set fp) + t * Max (set fp)"
        by linarith
      then show ?thesis by (simp add: algebra_simps)
    qed
    have "lerp_index fp x = fp ! j + (fp ! (j + 1) - fp ! j) * t"
      using mid unfolding lerp_index_def K j_def t_def by simp
    then show ?thesis using lo hi conv by simp
  qed
qed

lemma mask_set_select:
  assumes "length msk = length a" "length a = length us"
  shows "mask_set a msk (map f (select msk us)) =
     Inr (map (\<lambda>(b, x, u). if b then f u else x) (zip msk (zip a us)))"
proof -
  have "length (map f (select msk us)) = count_true msk"
    using assms by (simp add: length_select)
  then show ?thesis
    unfolding mask_set_def using assms by (simp add: scatter_map_select)
qed

lemma length_Eem: "length (Eem decays) = Nem decays"
  by (simp add: Eem_def Nem_def length_select)

lemma length_Ehad: "length (Ehad decays) = Nhad decays"
  by (simp add: Ehad_def Nhad_def length_select)

lemma Eem_pos: "\<forall>f \<in> set (Eem decays). 0 < f"
  by (auto simp: Eem_def select_map_filter)

lemma Ehad_pos: "\<forall>f \<in> set (Ehad decays). 0 < f"
  by (auto simp: Ehad_def select_map_filter)

lemma sample_energy_fraction_eq:
  assumes "0 < Nem decays" "0 < Nhad decays"
  shows "sample_energy_fraction src decays stypes w =
     Inr (map2 (fraction_of decays) stypes (map src [draws w ..< draws w + length stypes]),
          w\<lparr>draws := draws w + length stypes\<rparr>)"
proof -
  let ?u = "map src [draws w ..< draws w + length stypes]"
  let ?em = "map (\<lambda>s. s = Electromagnetic) stypes"
  let ?had = "map (\<lambda>s. s = Hadronic) stypes"
  let ?fe = "\<lambda>x. interp1 (np_arange (Nem decays)) (Eem decays) (real (Nem decays) * x)"
  let ?fh = "\<lambda>x. interp1 (np_arange (Nhad decays)) (Ehad decays) (real (Nhad decays) * x)"
  have lu: "length ?u = length stypes" by simp
  have ar: "np_arange n \<noteq> [] \<longleftrightarrow> 0 < n" "length (np_arange n) = n" for n
    by (simp_all add: np_arange_def)
  have ie: "np_interp xs (np_arange (Nem decays)) (Eem decays) =
        Inr (map (interp1 (np_arange (Nem decays)) (Eem decays)) xs)" for xs
    using assms(1) by (simp add: np_interp_def ar length_Eem)
  have ih: "np_interp xs (np_arange (Nhad decays)) (Ehad decays) =
        Inr (map (interp1 (np_arange (Nhad decays)) (Ehad decays)) xs)" for xs
    using assms(2) by (simp add: np_interp_def ar length_Ehad)
  show ?thesis
    unfolding sample_energy_fraction_def
    apply (simp add: random_uniform_def mask_get_def ie ih mask_set_select Let_def)
    apply (rule nth_equalityI)
     apply (simp_all add: fraction_of_def Hadronic_def Electromagnetic_def)
    done
qed

lemma exceeds_true_divide:
  "0 < b \<Longrightarrow> exceeds u (true_divide a b) = (a / b < u)"
  by (simp add: exceeds_def true_divide_def)

section \<open>The decay sampler: shower types\<close>

text \<open>
  Claim C6. For every count \<open>n \<ge> 0\<close>, \<open>sample_shower_type\<close> draws \<open>n\<close> uniform
  variates and returns \<open>n\<close> integer labels; sample \<open>i\<close> is Electromagnetic (1) exactly
  when its own variate is strictly greater than \<open>Pem = Nem / Nshowers\<close>, and Hadronic
  (0), the value the array is initialised with, otherwise. The comparison is numpy's:
  for a table with no shower at all \<open>Pem\<close> is \<open>nan\<close> and every label stays Hadronic.
\<close>

theorem sample_shower_type_labels:
  assumes "0 \<le> n"
  shows "\<exists>stypes. sample_shower_type src decays n w = Inr (stypes, w\<lparr>draws := draws w + nat n\<rparr>)
      \<and> length stypes = nat n
      \<and> (\<forall>i<nat n. stypes ! i =
            (if exceeds (src (draws w + i)) (true_divide (real (Nem decays)) (real (Nshowers decays)))
             then Electromagnetic else Hadronic))
      \<and> (0 < Nshowers decays \<longrightarrow>
           (\<forall>i<nat n. (stypes ! i = Electromagnetic) =
              (real (Nem decays) / real (Nshowers decays) < src (draws w + i))))"
proof -
  let ?u = "map src [draws w ..< draws w + nat n]"
  let ?P = "true_divide (real (Nem decays)) (real (Nshowers decays))"
  let ?st = "map2 (\<lambda>b x. if b then Electromagnetic else x) (map (\<lambda>x. exceeds x ?P) ?u) (replicate (nat n) 0)"
  have run: "sample_shower_type src decays n w = Inr (?st, w\<lparr>draws := draws w + nat n\<rparr>)"
    using assms unfolding sample_shower_type_def
    by (simp add: random_uniform_def mask_fill_def scatter_replicate Let_def)
  have len: "length ?st = nat n" by simp
  have nth: "?st ! i = (if exceeds (src (draws w + i)) ?P then Electromagnetic else Hadronic)"
    if "i < nat n" for i
    using that by (simp add: Hadronic_def)
  have iff: "(?st ! i = Electromagnetic) = (real (Nem decays) / real (Nshowers decays) < src (draws w + i))"
    if "i < nat n" "0 < Nshowers decays" for i
    using that nth [OF that(1)]
    by (simp add: exceeds_true_divide Hadronic_def Electromagnetic_def)
  show ?thesis
    using run len nth iff by blast
qed

theorem sample_shower_type_labels_witness:
  "(0::int) \<le> 3 \<and> 0 < Nshowers decays_ex \<and>
   sample_shower_type src_ex decays_ex 3 w0 = Inr ([Hadronic, Electromagnetic, Hadronic], w0\<lparr>draws := 3\<rparr>)"
  using sample_shower_type_labels [of 3 src_ex decays_ex w0]
  by (simp add: sample_shower_type_def random_uniform_def mask_fill_def Let_def w0_def
      src_ex_def decays_ex_def row_def Nem_def Nshowers_def count_true_def true_divide_def
      exceeds_def Hadronic_def Electromagnetic_def upt_rec eval_nat_numeral)

lemma fraction_of_em:
  assumes "0 < Nem decays"
  shows "fraction_of decays Electromagnetic u = lerp_index (Eem decays) (real (Nem decays) * u)"
proof -
  have ne: "Eem decays \<noteq> []" using assms length_Eem [of decays] by auto
  show ?thesis
    using interp1_arange [OF ne] by (simp add: fraction_of_def Hadronic_def Electromagnetic_def length_Eem)
qed

lemma fraction_of_had:
  assumes "0 < Nhad decays"
  shows "fraction_of decays Hadronic u = lerp_index (Ehad decays) (real (Nhad decays) * u)"
proof -
  have ne: "Ehad decays \<noteq> []" using assms length_Ehad [of decays] by auto
  show ?thesis
    using interp1_arange [OF ne] by (simp add: fraction_of_def length_Ehad)
qed

section \<open>The decay sampler: energy fractions\<close>

text \<open>
  Claim C5. For an array of shower types that are all Hadronic or Electromagnetic,
  \<open>sample_energy_fraction\<close> draws one uniform variate per sample (the world's count of
  draws grows by the array's length, sample \<open>i\<close> reads variate \<open>draws w + i\<close>) and returns
  for each sample the linear interpolation of the abscissa \<open>K * u\<close> against the indices
  \<open>0..K-1\<close> of its category's sorted positive fractions (\<open>Eem\<close> with \<open>K = Nem\<close>, \<open>Ehad\<close>
  with \<open>K = Nhad\<close>), an abscissa outside \<open>[0, K-1]\<close> taking the nearest end; every
  returned value is positive and at most the largest fraction of the category. The
  decay table, a file outside the sources, is taken to hold a row of each category:
  without one \<open>np.interp\<close> raises on the empty sample points.
\<close>

theorem sample_energy_fraction_interpolates:
  assumes types: "\<forall>s \<in> set stypes. s = Hadronic \<or> s = Electromagnetic"
    and em: "0 < Nem decays" and had: "0 < Nhad decays"
  shows "\<exists>fr. sample_energy_fraction src decays stypes w =
            Inr (fr, w\<lparr>draws := draws w + length stypes\<rparr>)
      \<and> length fr = length stypes
      \<and> (\<forall>i<length stypes.
           (stypes ! i = Electromagnetic \<longrightarrow>
              fr ! i = lerp_index (Eem decays) (real (Nem decays) * src (draws w + i))
              \<and> 0 < fr ! i \<and> fr ! i \<le> Max (set (Eem decays)))
         \<and> (stypes ! i = Hadronic \<longrightarrow>
              fr ! i = lerp_index (Ehad decays) (real (Nhad decays) * src (draws w + i))
              \<and> 0 < fr ! i \<and> fr ! i \<le> Max (set (Ehad decays)))
         \<and> (stypes ! i = Electromagnetic \<or> stypes ! i = Hadronic))"
proof -
  let ?u = "map src [draws w ..< draws w + length stypes]"
  let ?fr = "map2 (fraction_of decays) stypes ?u"
  have run: "sample_energy_fraction src decays stypes w =
      Inr (?fr, w\<lparr>draws := draws w + length stypes\<rparr>)"
    by (rule sample_energy_fraction_eq [OF em had])
  have len: "length ?fr = length stypes" by simp
  have nth: "?fr ! i = fraction_of decays (stypes ! i) (src (draws w + i))"
    if "i < length stypes" for i
    using that by simp
  have ne_em: "Eem decays \<noteq> []" using em length_Eem [of decays] by auto
  have ne_had: "Ehad decays \<noteq> []" using had length_Ehad [of decays] by auto
  have c_em: "?fr ! i = lerp_index (Eem decays) (real (Nem decays) * src (draws w + i))
      \<and> 0 < ?fr ! i \<and> ?fr ! i \<le> Max (set (Eem decays))"
    if "i < length stypes" "stypes ! i = Electromagnetic" for i
    using nth [OF that(1)] that(2) fraction_of_em [OF em]
      lerp_index_bounds [OF ne_em Eem_pos]
    by simp
  have c_had: "?fr ! i = lerp_index (Ehad decays) (real (Nhad decays) * src (draws w + i))
      \<and> 0 < ?fr ! i \<and> ?fr ! i \<le> Max (set (Ehad decays))"
    if "i < length stypes" "stypes ! i = Hadronic" for i
    using nth [OF that(1)] that(2) fraction_of_had [OF had]
      lerp_index_bounds [OF ne_had Ehad_pos]
    by simp
  have ty: "stypes ! i = Electromagnetic \<or> stypes ! i = Hadronic" if "i < length stypes" for i
    using types that by (metis nth_mem)
  show ?thesis
    using run len c_em c_had ty by blast
qed

theorem sample_energy_fraction_interpolates_witness:
  "list_all (\<lambda>s. s = Hadronic \<or> s = Electromagnetic) [Hadronic, Electromagnetic]
   \<and> 0 < Nem decays_ex \<and> 0 < Nhad decays_ex
   \<and> sample_energy_fraction src_ex decays_ex [Hadronic, Electromagnetic] w0 =
       Inr ([5/8, 1/4], w0\<lparr>draws := 2\<rparr>)
   \<and> lerp_index (Ehad decays_ex) (real (Nhad decays_ex) * src_ex 0) = 5/8
   \<and> Max (set (Ehad decays_ex)) = 3/4"
  using sample_energy_fraction_interpolates [of "[Hadronic, Electromagnetic]" decays_ex src_ex w0]
  by (simp add: sample_energy_fraction_eq fraction_of_def interp1_def np_arange_def lerp_index_def
      w0_def src_ex_def decays_ex_def row_def Nem_def Nhad_def Eem_def Ehad_def count_true_def
      Hadronic_def Electromagnetic_def upt_rec eval_nat_numeral)

text \<open>
  Claim C10. A shower type that is neither Hadronic (0) nor Electromagnetic (1) is
  selected by neither mask, so its entry of the zero-initialised output is never
  written: the returned fraction there is exactly 0, outside the range \<open>(0, max]\<close>
  that holds for the two defined categories.
\<close>

theorem sample_energy_fraction_unknown_type:
  assumes em: "0 < Nem decays" and had: "0 < Nhad decays"
  shows "\<exists>fr. sample_energy_fraction src decays stypes w =
            Inr (fr, w\<lparr>draws := draws w + length stypes\<rparr>)
      \<and> length fr = length stypes
      \<and> (\<forall>i<length stypes.
            stypes ! i \<noteq> Hadronic \<and> stypes ! i \<noteq> Electromagnetic \<longrightarrow> fr ! i = 0)"
proof -
  let ?u = "map src [draws w ..< draws w + length stypes]"
  let ?fr = "map2 (fraction_of decays) stypes ?u"
  have run: "sample_energy_fraction src decays stypes w =
      Inr (?fr, w\<lparr>draws := draws w + length stypes\<rparr>)"
    by (rule sample_energy_fraction_eq [OF em had])
  have "?fr ! i = 0"
    if "i < length stypes" "stypes ! i \<noteq> Hadronic" "stypes ! i \<noteq> Electromagnetic" for i
    using that by (simp add: fraction_of_def)
  then show ?thesis using run by auto
qed

theorem sample_energy_fraction_unknown_type_witness:
  "0 < Nem decays_ex \<and> 0 < Nhad decays_ex
   \<and> 2 \<noteq> Hadronic \<and> 2 \<noteq> Electromagnetic
   \<and> sample_energy_fraction src_ex decays_ex [Hadronic, 2, Electromagnetic] w0 =
       Inr ([5/8, 0, 1/4], w0\<lparr>draws := 3\<rparr>)"
  using sample_energy_fraction_unknown_type [of decays_ex src_ex "[Hadronic, 2, Electromagnetic]" w0]
  by (simp add: sample_energy_fraction_eq fraction_of_def interp1_def np_arange_def
      w0_def src_ex_def decays_ex_def row_def Nem_def Nhad_def Eem_def Ehad_def count_true_def
      Hadronic_def Electromagnetic_def upt_rec eval_nat_numeral)

section \<open>The decay sampler: shower energies of an array\<close>

lemma sample_shower_type_one:
  "sample_shower_type src decays 1 w =
     Inr ([label_of decays (src (draws w))], w\<lparr>draws := draws w + 1\<rparr>)"
  by (simp add: sample_shower_type_def random_uniform_def mask_fill_def Let_def label_of_def
      count_true_def Hadronic_def)

lemma sample_tau_energies_one:
  assumes "0 < Nem decays" "0 < Nhad decays"
  shows "sample_tau_energies src decays e 1 w =
     Inr ([e * fraction_of decays (label_of decays (src (draws w))) (src (draws w + 1))],
          w\<lparr>draws := draws w + 2\<rparr>)"
  by (simp add: sample_tau_energies_def sample_shower_type_one
      sample_energy_fraction_eq [OF assms])

lemma sample_shower_energies_eq:
  assumes "0 < Nem decays" "0 < Nhad decays"
  shows "sample_shower_energies src decays es n w =
     Inr (map (\<lambda>i. es ! i * fraction_of decays (label_of decays (src (draws w + 2 * i)))
                       (src (draws w + 2 * i + 1))) [0..<length es],
          w\<lparr>draws := draws w + 2 * length es\<rparr>)"
proof (induction es arbitrary: w)
  case Nil
  show ?case by simp
next
  case (Cons e es)
  have upt: "[0..<length (e # es)] = 0 # map Suc [0..<length es]"
    by (simp add: upt_conv_Cons map_Suc_upt del: upt_Suc)
  show ?case
    unfolding upt
    by (simp add: sample_tau_energies_one [OF assms] Cons.IH comp_def add.assoc)
qed


section \<open>The event loop\<close>

lemmas ex_defs = collab_ex_def batch_ex_def params_ex_def w0_def src_ex_def
lemmas calc_defs = calculate_def batch_of_def exit_lookup_def prepare_def station_def
  station_eval_def horizon_masks_def aggregate_def detected_def np_zeros2_def row_view_def
  view_read_def view_write_def view_setitem_mask_def view_fill_mask_def view_getitem_mask_def
  sample_range_def ma_rmul_def random_exponential_def broadcast2_def mask_get_def mask_set_def mask_fill_def
  np_index_def true_divide_def np_greater_def ma_sum_def ma_mean_def unmasked_def as_float_def
  count_true_def detector_altitude_of_def vadd_def vsub_def vscale_def vsub_scalar_def vnorm_def
  rad2deg_def

text \<open>
  Claim C1. When the batch of trials is empty, \<open>calculate\<close> returns the vector
  \<open>[0, 0, 0, 0]\<close> and leaves the world as it found it: no variate is drawn, no array is
  allocated, and the log of calls gains no entry, so neither the exit lookup nor the
  decay sampler nor the voltage model of any station is invoked.
\<close>

theorem calculate_empty_batch:
  assumes "emergence (batch_of c p) = []"
  shows "calculate c src p w = Inr ([Fin 0, Fin 0, Fin 0, Fin 0], w)"
  using assms by (simp add: calculate_def Let_def)

theorem calculate_empty_batch_witness:
  "emergence (batch_of (collab_ex (batch_ex [] []) [] 0 10) (params_ex 1000000)) = []
   \<and> calculate (collab_ex (batch_ex [] []) [] 0 10) src_ex (params_ex 1000000) w0 =
       Inr ([Fin 0, Fin 0, Fin 0, Fin 0], \<lparr>draws = 0, heap = [], calls = []\<rparr>)"
  using calculate_empty_batch [of "collab_ex (batch_ex [] []) [] 0 10" "params_ex 1000000" src_ex w0]
  by (simp add: batch_of_def ex_defs)

text \<open>
  Claim C2 fails on the code. Both runs have one station and one trial in sight whose
  signal-to-noise ratio, 10, is above the threshold 5. In the first the station sees
  the decay point at zenith angle 0, so its elevation \<open>pi/2\<close> is positive; in the second
  the decay point is at distance 200, beyond the horizon distance 100, and at elevation
  \<open>-pi/2\<close>, below the horizon angle 0. In both the trigger buffer (buffer 0) keeps its 1
  and \<open>pdet\<close> is 1: the zero of line 186 or 182 went into the copy (buffer 2 or 1).
\<close>

theorem calculate_keeps_masked_triggers:
  "calculate (collab_ex (batch_ex [(0, 0, 0)] [1]) [(1/2, False)] 0 10) src_ex (params_ex 1) w0 =
     Inr ([Fin 2, Fin (1/2), Fin 1, Fin 1],
          \<lparr>draws = 1, heap = [[[1]], [[1]], [[0]]],
           calls = [TauExit, SampleRange, SampleShowerEnergies, Voltage 0]\<rparr>)
   \<and> calculate (collab_ex (batch_ex [(0, 0, 200)] [1]) [(1/2, False)] pi 10) src_ex (params_ex 1) w0 =
     Inr ([Fin 2, Fin (1/2), Fin 1, Fin 1],
          \<lparr>draws = 1, heap = [[[1]], [[0]], [[1]]],
           calls = [TauExit, SampleRange, SampleShowerEnergies, Voltage 0]\<rparr>)"
  by (simp add: ex_defs calc_defs Let_def)

text \<open>
  Claim C7 fails on the code. For a station on the reference sphere, at geocentric
  position \<open>(Re, 0, 0)\<close> with \<open>Re = 6371\<close>, the norm of the position minus \<open>Re\<close> is 0;
  line 132 subtracts \<open>Re\<close> from every component before taking the norm and gives
  \<open>6371 * sqrt 2\<close>.
\<close>

theorem detector_altitude_at_sea_level:
  "vnorm (6371, 0, 0) - 6371 = 0 \<and> detector_altitude_of 6371 (6371, 0, 0) = 6371 * sqrt 2"
proof -
  have "sqrt (6371 * 6371 + 6371 * 6371) = sqrt ((6371 * 6371) * 2)" by simp
  also have "\<dots> = 6371 * sqrt 2" by (simp only: real_sqrt_mult real_sqrt_mult_self)
  finally show ?thesis
    by (simp add: detector_altitude_of_def vnorm_def vsub_scalar_def)
qed

section \<open>The trigger buffer during the loop\<close>

lemma row_view_Inr: "row_view a i w = Inr v \<Longrightarrow> v = (a, i) \<and> i < length (heap w ! a)"
  by (auto simp: row_view_def split: if_splits)

lemma set_scatter: "set (scatter msk xs vs) \<subseteq> set xs \<union> set vs"
proof (induction msk xs vs rule: scatter.induct)
  case (1 b bs x xs vs)
  then show ?case by (cases b; cases vs) auto
qed simp_all

lemma mask_set_Inr:
  assumes "mask_set a msk vs = Inr xs"
  shows "length xs = length a \<and> set xs \<subseteq> set a \<union> set vs"
proof -
  have one: "set (replicate k (hd vs)) \<subseteq> set vs" if "length vs = 1" for k
    using that by (cases vs) auto
  from assms show ?thesis
    using set_scatter [of msk a vs] set_scatter [of msk a "replicate (count_true msk) (hd vs)"] one
    by (auto simp: mask_set_def split: if_splits)
qed

lemma copy_then_fill:
  assumes "view_getitem_mask v msk w = Inr (t, w1)"
    and "view_fill_mask t m2 x w1 = Inr w2"
    and "a < length (heap w)"
  shows "heap w2 ! a = heap w ! a \<and> length (heap w2) = Suc (length (heap w))
         \<and> draws w2 = draws w \<and> calls w2 = calls w"
  using assms
  by (auto simp: view_getitem_mask_def view_fill_mask_def view_write_def bind_r_eq_Inr nth_append)

lemma trigger_buffer_update:
  assumes tb: "trigger_buffer a m n w" and i: "i < length (heap w ! a)"
    and len: "length xs = length (heap w ! a ! i)"
    and els: "set xs \<subseteq> set (heap w ! a ! i) \<union> {0, 1}"
  shows "trigger_buffer a m n (w\<lparr>heap := (heap w)[a := (heap w ! a)[i := xs]], calls := cs\<rparr>)"
proof -
  from tb have a: "a < length (heap w)" and m: "length (heap w ! a) = m"
    and rows: "\<And>r. r \<in> set (heap w ! a) \<Longrightarrow> length r = n \<and> (\<forall>x\<in>set r. x = 0 \<or> x = 1)"
    by (auto simp: trigger_buffer_def list_all_iff)
  have old: "length (heap w ! a ! i) = n \<and> (\<forall>x\<in>set (heap w ! a ! i). x = 0 \<or> x = 1)"
    using rows [of "heap w ! a ! i"] i by simp
  have new: "length xs = n \<and> (\<forall>x\<in>set xs. x = 0 \<or> x = 1)"
    using old len els by auto
  have "r \<in> set ((heap w ! a)[i := xs]) \<Longrightarrow> length r = n \<and> (\<forall>x\<in>set r. x = 0 \<or> x = 1)" for r
    using rows new set_update_subset_insert [of "heap w ! a" i xs] by blast
  then show ?thesis
    using a m by (auto simp: trigger_buffer_def list_all_iff)
qed


lemma bind_rE:
  assumes "bind_r m f = Inr y"
  obtains x where "m = Inr x" and "f x = Inr y"
  using assms by (auto simp: bind_r_eq_Inr)

lemma view_setitem_mask_Inr':
  assumes "view_setitem_mask (a, i) msk vs w = Inr w'"
  shows "\<exists>xs. mask_set (heap w ! a ! i) msk vs = Inr xs
           \<and> w' = w\<lparr>heap := (heap w)[a := (heap w ! a)[i := xs]]\<rparr>"
  using assms
  by (auto simp: view_setitem_mask_def view_read_def view_write_def bind_r_eq_Inr)

lemma station_Inr:
  assumes run: "station c p Ag ph a i w = Inr w'" and a: "a < length (heap w)"
  shows "\<exists>ev xs. station_eval c p Ag ph i = Inr ev
           \<and> i < length (heap w ! a)
           \<and> mask_set (heap w ! a ! i) (in_sight ev)
                (map (\<lambda>x. if np_greater x (trigger_SNR p) then 1 else 0) (SNR ev)) = Inr xs
           \<and> heap w' ! a = (heap w ! a)[i := xs]
           \<and> length (heap w') = length (heap w) + 2
           \<and> draws w' = draws w"
proof -
  let ?w1 = "w\<lparr>calls := calls w @ [Voltage i]\<rparr>"
  from run [unfolded station_def Let_def] obtain ev where
    ev: "station_eval c p Ag ph i = Inr ev"
    and r1: "bind_r (row_view a i ?w1) (\<lambda>v.
       bind_r (view_setitem_mask v (in_sight ev)
                 (map (\<lambda>x. if np_greater x (trigger_SNR p) then 1 else 0) (SNR ev)) ?w1) (\<lambda>w2.
       bind_r (horizon_masks c ev) (\<lambda>(invis, abv).
       bind_r (row_view a i w2) (\<lambda>v1.
       bind_r (view_getitem_mask v1 (in_sight ev) w2) (\<lambda>(t1, w3).
       bind_r (view_fill_mask t1 invis 0 w3) (\<lambda>w4.
       bind_r (row_view a i w4) (\<lambda>v2.
       bind_r (view_getitem_mask v2 (in_sight ev) w4) (\<lambda>(t2, w5).
       view_fill_mask t2 abv 0 w5)))))))) = Inr w'"
    by (rule bind_rE)
  from r1 obtain v where v: "row_view a i ?w1 = Inr v"
    and r2: "bind_r (view_setitem_mask v (in_sight ev)
                 (map (\<lambda>x. if np_greater x (trigger_SNR p) then 1 else 0) (SNR ev)) ?w1) (\<lambda>w2.
       bind_r (horizon_masks c ev) (\<lambda>(invis, abv).
       bind_r (row_view a i w2) (\<lambda>v1.
       bind_r (view_getitem_mask v1 (in_sight ev) w2) (\<lambda>(t1, w3).
       bind_r (view_fill_mask t1 invis 0 w3) (\<lambda>w4.
       bind_r (row_view a i w4) (\<lambda>v2.
       bind_r (view_getitem_mask v2 (in_sight ev) w4) (\<lambda>(t2, w5).
       view_fill_mask t2 abv 0 w5))))))) = Inr w'"
    by (rule bind_rE)
  from r2 obtain w2 where set: "view_setitem_mask v (in_sight ev)
                 (map (\<lambda>x. if np_greater x (trigger_SNR p) then 1 else 0) (SNR ev)) ?w1 = Inr w2"
    and r3: "bind_r (horizon_masks c ev) (\<lambda>(invis, abv).
       bind_r (row_view a i w2) (\<lambda>v1.
       bind_r (view_getitem_mask v1 (in_sight ev) w2) (\<lambda>(t1, w3).
       bind_r (view_fill_mask t1 invis 0 w3) (\<lambda>w4.
       bind_r (row_view a i w4) (\<lambda>v2.
       bind_r (view_getitem_mask v2 (in_sight ev) w4) (\<lambda>(t2, w5).
       view_fill_mask t2 abv 0 w5)))))) = Inr w'"
    by (rule bind_rE)
  from r3 obtain hm where "horizon_masks c ev = Inr hm"
    and r4: "(case hm of (invis, abv) \<Rightarrow>
       bind_r (row_view a i w2) (\<lambda>v1.
       bind_r (view_getitem_mask v1 (in_sight ev) w2) (\<lambda>(t1, w3).
       bind_r (view_fill_mask t1 invis 0 w3) (\<lambda>w4.
       bind_r (row_view a i w4) (\<lambda>v2.
       bind_r (view_getitem_mask v2 (in_sight ev) w4) (\<lambda>(t2, w5).
       view_fill_mask t2 abv 0 w5)))))) = Inr w'"
    by (rule bind_rE)
  obtain invis abv where hm: "hm = (invis, abv)" by (cases hm)
  from r4 [unfolded hm prod.case] obtain v1 where "row_view a i w2 = Inr v1"
    and r5: "bind_r (view_getitem_mask v1 (in_sight ev) w2) (\<lambda>(t1, w3).
       bind_r (view_fill_mask t1 invis 0 w3) (\<lambda>w4.
       bind_r (row_view a i w4) (\<lambda>v2.
       bind_r (view_getitem_mask v2 (in_sight ev) w4) (\<lambda>(t2, w5).
       view_fill_mask t2 abv 0 w5)))) = Inr w'"
    by (rule bind_rE)
  from r5 obtain g1 where g1: "view_getitem_mask v1 (in_sight ev) w2 = Inr g1"
    and r6: "(case g1 of (t1, w3) \<Rightarrow>
       bind_r (view_fill_mask t1 invis 0 w3) (\<lambda>w4.
       bind_r (row_view a i w4) (\<lambda>v2.
       bind_r (view_getitem_mask v2 (in_sight ev) w4) (\<lambda>(t2, w5).
       view_fill_mask t2 abv 0 w5)))) = Inr w'"
    by (rule bind_rE)
  obtain t1 w3 where g1eq: "g1 = (t1, w3)" by (cases g1)
  from r6 [unfolded g1eq prod.case] obtain w4 where f1: "view_fill_mask t1 invis 0 w3 = Inr w4"
    and r7: "bind_r (row_view a i w4) (\<lambda>v2.
       bind_r (view_getitem_mask v2 (in_sight ev) w4) (\<lambda>(t2, w5).
       view_fill_mask t2 abv 0 w5)) = Inr w'"
    by (rule bind_rE)
  from r7 obtain v2 where "row_view a i w4 = Inr v2"
    and r8: "bind_r (view_getitem_mask v2 (in_sight ev) w4) (\<lambda>(t2, w5).
       view_fill_mask t2 abv 0 w5) = Inr w'"
    by (rule bind_rE)
  from r8 obtain g2 where g2: "view_getitem_mask v2 (in_sight ev) w4 = Inr g2"
    and r9: "(case g2 of (t2, w5) \<Rightarrow> view_fill_mask t2 abv 0 w5) = Inr w'"
    by (rule bind_rE)
  obtain t2 w5 where g2eq: "g2 = (t2, w5)" by (cases g2)
  have c1: "view_getitem_mask v1 (in_sight ev) w2 = Inr (t1, w3)" using g1 g1eq by simp
  have c2: "view_getitem_mask v2 (in_sight ev) w4 = Inr (t2, w5)" using g2 g2eq by simp
  have f2: "view_fill_mask t2 abv 0 w5 = Inr w'" using r9 g2eq by simp
  from row_view_Inr [OF v] have veq: "v = (a, i)" and i: "i < length (heap w ! a)" by simp_all
  from view_setitem_mask_Inr' [OF set [unfolded veq]] obtain xs where
    xs: "mask_set (heap w ! a ! i) (in_sight ev)
           (map (\<lambda>x. if np_greater x (trigger_SNR p) then 1 else 0) (SNR ev)) = Inr xs"
    and w2: "w2 = ?w1\<lparr>heap := (heap ?w1)[a := (heap ?w1 ! a)[i := xs]]\<rparr>"
    by auto
  have h2: "heap w2 ! a = (heap w ! a)[i := xs]" "length (heap w2) = length (heap w)" "draws w2 = draws w"
    using w2 a by simp_all
  have a2: "a < length (heap w2)" using h2 a by simp
  from copy_then_fill [OF c1 f1 a2] have h4: "heap w4 ! a = heap w2 ! a"
    "length (heap w4) = Suc (length (heap w2))" "draws w4 = draws w2" by simp_all
  have a4: "a < length (heap w4)" using h4 a2 by simp
  from copy_then_fill [OF c2 f2 a4] have h6: "heap w' ! a = heap w4 ! a"
    "length (heap w') = Suc (length (heap w4))" "draws w' = draws w4" by simp_all
  show ?thesis
    using ev i xs h2 h4 h6 by auto
qed

lemma station_trigger_buffer:
  assumes run: "station c p Ag ph a i w = Inr w'" and tb: "trigger_buffer a m n w"
  shows "trigger_buffer a m n w'"
proof -
  from tb have a: "a < length (heap w)" by (simp add: trigger_buffer_def)
  from station_Inr [OF run a] obtain ev xs where
    "station_eval c p Ag ph i = Inr ev" and
    i: "i < length (heap w ! a)"
    and xs: "mask_set (heap w ! a ! i) (in_sight ev)
           (map (\<lambda>x. if np_greater x (trigger_SNR p) then 1 else 0) (SNR ev)) = Inr xs"
    and h: "heap w' ! a = (heap w ! a)[i := xs]"
    and l: "length (heap w') = length (heap w) + 2"
    and "draws w' = draws w"
    by (elim exE conjE) (rule that)
  from mask_set_Inr [OF xs] have len: "length xs = length (heap w ! a ! i)"
    and els: "set xs \<subseteq> set (heap w ! a ! i) \<union> {0, 1}"
    by auto
  from trigger_buffer_update [OF tb i len els, of "calls w"]
  have "trigger_buffer a m n (w\<lparr>heap := (heap w)[a := (heap w ! a)[i := xs]], calls := calls w\<rparr>)" .
  then show ?thesis
    using h l a by (simp add: trigger_buffer_def)
qed

lemma for_stations_trigger_buffer:
  "for_stations (station c p Ag ph a) js w = Inr w' \<Longrightarrow> trigger_buffer a m n w
     \<Longrightarrow> trigger_buffer a m n w'"
proof (induction js arbitrary: w)
  case Nil
  then show ?case by simp
next
  case (Cons j js)
  from Cons.prems(1) obtain w1 where
    s: "station c p Ag ph a j w = Inr w1" and r: "for_stations (station c p Ag ph a) js w1 = Inr w'"
    by (auto simp: bind_r_eq_Inr)
  show ?case
    by (rule Cons.IH [OF r station_trigger_buffer [OF s Cons.prems(2)]])
qed

lemma np_zeros2_trigger_buffer:
  "np_zeros2 m n w = (a, w') \<Longrightarrow> trigger_buffer a m n w' \<and> a = length (heap w)"
  by (auto simp: np_zeros2_def trigger_buffer_def list_all_iff)

section \<open>The aggregation\<close>

lemma prepare_Inr:
  assumes "prepare c src p Ag w = Inr (ph, w1)"
  shows "Pexit ph = fst (exit_lookup c Ag) \<and> heap w1 = heap w"
  using assms
  by (auto simp: prepare_def Let_def split_beta bind_r_eq_Inr sample_range_def
      random_exponential_def split: if_splits)

lemma calculate_Inr:
  assumes run: "calculate c src p w = Inr (out, w')"
    and ne: "emergence (batch_of c p) \<noteq> []"
  shows "\<exists>ph w1. prepare c src p (batch_of c p) w = Inr (ph, w1)
     \<and> for_stations (station c p (batch_of c p) ph (length (heap w)))
          [0..<length (stations_geocentric (batch_of c p))]
          (w1\<lparr>heap := heap w1 @ [replicate (length (stations_geocentric (batch_of c p)))
                                  (replicate (length (trials (batch_of c p))) 0)]\<rparr>) = Inr w'
     \<and> aggregate p (batch_of c p) (fst (exit_lookup c (batch_of c p)))
          (detected (heap w' ! length (heap w)) (length (trials (batch_of c p)))) = Inr out"
proof -
  let ?Ag = "batch_of c p"
  from run ne obtain x where x: "prepare c src p ?Ag w = Inr x"
    and r: "(case x of (ph, w1) \<Rightarrow>
        let n_stations = length (stations_geocentric ?Ag);
            (Ptrig, w2) = np_zeros2 n_stations (length (trials ?Ag)) w1
        in bind_r (for_stations (station c p ?Ag ph Ptrig) [0..<n_stations] w2) (\<lambda>w3.
           bind_r (aggregate p ?Ag (Pexit ph) (detected (heap w3 ! Ptrig) (length (trials ?Ag))))
             (\<lambda>out. Inr (out, w3)))) = Inr (out, w')"
    unfolding calculate_def Let_def by (auto simp: bind_r_eq_Inr)
  obtain ph w1 where xeq: "x = (ph, w1)" by (cases x)
  from prepare_Inr [OF x [unfolded xeq]] have px: "Pexit ph = fst (exit_lookup c ?Ag)"
    and h: "heap w1 = heap w" by simp_all
  from r [unfolded xeq] have
    "for_stations (station c p ?Ag ph (length (heap w)))
          [0..<length (stations_geocentric ?Ag)]
          (w1\<lparr>heap := heap w1 @ [replicate (length (stations_geocentric ?Ag))
                                  (replicate (length (trials ?Ag)) 0)]\<rparr>) = Inr w'
     \<and> aggregate p ?Ag (Pexit ph)
          (detected (heap w' ! length (heap w)) (length (trials ?Ag))) = Inr out"
    by (auto simp: Let_def np_zeros2_def h bind_r_eq_Inr)
  then show ?thesis using x xeq px by auto
qed

lemma calculate_trigger_buffer:
  assumes run: "calculate c src p w = Inr (out, w')"
    and ne: "emergence (batch_of c p) \<noteq> []"
  shows "trigger_buffer (length (heap w)) (length (stations_geocentric (batch_of c p)))
           (length (trials (batch_of c p))) w'"
proof -
  let ?Ag = "batch_of c p"
  let ?m = "length (stations_geocentric ?Ag)"
  let ?n = "length (trials ?Ag)"
  from calculate_Inr [OF run ne] obtain ph w1 where
    pr: "prepare c src p ?Ag w = Inr (ph, w1)"
    and lp: "for_stations (station c p ?Ag ph (length (heap w))) [0..<?m]
          (w1\<lparr>heap := heap w1 @ [replicate ?m (replicate ?n 0)]\<rparr>) = Inr w'"
    by blast
  from prepare_Inr [OF pr] have h: "heap w1 = heap w" by simp
  have "np_zeros2 ?m ?n w1 = (length (heap w), w1\<lparr>heap := heap w1 @ [replicate ?m (replicate ?n 0)]\<rparr>)"
    by (simp add: np_zeros2_def h)
  from np_zeros2_trigger_buffer [OF this]
  have "trigger_buffer (length (heap w)) ?m ?n (w1\<lparr>heap := heap w1 @ [replicate ?m (replicate ?n 0)]\<rparr>)"
    by blast
  from for_stations_trigger_buffer [OF lp this] show ?thesis .
qed

lemma sum_list_01:
  fixes xs :: "real list"
  assumes "list_all (\<lambda>x. x = 0 \<or> x = 1) xs"
  shows "0 \<le> sum_list xs \<and> ((0 < sum_list xs) = (1 \<in> set xs))"
  using assms by (induction xs) auto

lemma detected_nth:
  assumes rows: "list_all (\<lambda>r. length r = n \<and> list_all (\<lambda>x. x = 0 \<or> x = 1) r) rows"
    and j: "j < n"
  shows "detected rows n ! j = any_station rows j"
proof -
  have "list_all (\<lambda>x. x = 0 \<or> x = 1) (map (\<lambda>r. r ! j) rows)"
    using rows j by (auto simp: list_all_iff)
  from sum_list_01 [OF this]
  have "(0 < sum_list (map (\<lambda>r. r ! j) rows)) = (1 \<in> set (map (\<lambda>r. r ! j) rows))" by simp
  also have "\<dots> = any_station rows j"
    by (auto simp: any_station_def list_ex_iff)
  finally show ?thesis using j by (simp add: detected_def)
qed


lemma unmasked_indexed:
  "unmasked (map (\<lambda>j. (f j, m j)) js) = map f (filter (\<lambda>j. \<not> m j) js)"
  by (induction js) (simp_all add: unmasked_def)

lemma unmasked_empty_iff:
  "(unmasked Px = []) = (filter (\<lambda>j. \<not> snd (Px ! j)) [0..<length Px] = [])"
proof -
  have "(unmasked Px = []) = (\<forall>e\<in>set Px. snd e)"
    by (auto simp: unmasked_def filter_empty_conv)
  also have "\<dots> = (\<forall>j<length Px. snd (Px ! j))"
    by (simp add: all_set_conv_all_nth)
  also have "\<dots> = (filter (\<lambda>j. \<not> snd (Px ! j)) [0..<length Px] = [])"
    by (auto simp: filter_empty_conv)
  finally show ?thesis .
qed

lemma sum_list_filter_upt:
  fixes f :: "nat \<Rightarrow> real"
  shows "sum_list (map f (filter Q [0..<n])) = sum f {j. j < n \<and> Q j}"
proof -
  have "sum_list (map f (filter Q [0..<n])) = sum f (set (filter Q [0..<n]))"
    by (rule sum_list_distinct_conv_sum_set) simp
  also have "set (filter Q [0..<n]) = {j. j < n \<and> Q j}" by auto
  finally show ?thesis .
qed

lemma count_true_upt: "count_true (map Q [0..<n]) = card {j. j < n \<and> Q j}"
proof -
  have "count_true (map Q [0..<n]) = length (filter Q [0..<n])"
    by (simp add: count_true_def filter_map comp_def)
  also have "\<dots> = card (set (filter Q [0..<n]))"
    by (rule distinct_card [symmetric]) simp
  also have "set (filter Q [0..<n]) = {j. j < n \<and> Q j}" by auto
  finally show ?thesis .
qed

lemma aggregate_shaped:
  assumes d: "length (dot Ag) = n" and px: "length Px = n" and pd: "length Pdet = n"
  shows "aggregate p Ag Px Pdet = Inr
    [true_divide (area Ag * sum_list (dot Ag))
       (real_of_int (Ntrials p * int (length (stations_geocentric Ag)))),
     (if unmasked Px = [] then NaN
      else Fin (sum_list (unmasked Px) / real (length (unmasked Px)))),
     true_divide (real (count_true Pdet)) (real n),
     (if unmasked Px = [] then NaN
      else true_divide
        (\<Sum>j | j < n \<and> \<not> snd (Px ! j).
            area Ag * dot Ag ! j * fst (Px ! j) * (if Pdet ! j then 1 else 0))
        (real_of_int (Ntrials p * int (length (stations_geocentric Ag)))))]"
proof -
  let ?f = "\<lambda>d e. (area Ag * d * fst e, snd (e :: real \<times> bool))"
  let ?g = "\<lambda>(e :: real \<times> bool) b. (fst e * (if b then 1 else 0), snd e)"
  let ?h = "\<lambda>j. area Ag * dot Ag ! j * fst (Px ! j) * (if Pdet ! j then 1 else 0)"
  have b1: "broadcast2 ?f (dot Ag) Px = Inr (map2 ?f (dot Ag) Px)"
    using d px by (simp add: broadcast2_def)
  have b2: "broadcast2 ?g (map2 ?f (dot Ag) Px) Pdet = Inr (map2 ?g (map2 ?f (dot Ag) Px) Pdet)"
    using d px pd by (simp add: broadcast2_def)
  have a2: "map2 ?g (map2 ?f (dot Ag) Px) Pdet = map (\<lambda>j. (?h j, snd (Px ! j))) [0..<n]"
    using d px pd by (intro nth_equalityI) simp_all
  have um: "unmasked (map (\<lambda>j. (?h j, snd (Px ! j))) [0..<n]) =
      map ?h (filter (\<lambda>j. \<not> snd (Px ! j)) [0..<n])"
    by (rule unmasked_indexed)
  have emp: "(unmasked Px = []) = (filter (\<lambda>j. \<not> snd (Px ! j)) [0..<n] = [])"
    using unmasked_empty_iff [of Px] px by simp
  have sm: "sum_list (map ?h (filter (\<lambda>j. \<not> snd (Px ! j)) [0..<n])) =
      (\<Sum>j | j < n \<and> \<not> snd (Px ! j). ?h j)"
    by (rule sum_list_filter_upt)
  have ms: "ma_sum (map (\<lambda>j. (?h j, snd (Px ! j))) [0..<n]) =
      (if unmasked Px = [] then None else Some (\<Sum>j | j < n \<and> \<not> snd (Px ! j). ?h j))"
    unfolding ma_sum_def um sm emp by simp
  show ?thesis
    unfolding aggregate_def Let_def b1 bind_r_Inr b2 a2 ms
    by (simp add: as_float_def ma_mean_def pd)
qed


lemma detected_any_station:
  assumes "trigger_buffer a m n w"
  shows "detected (heap w ! a) n = map (any_station (heap w ! a)) [0..<n]"
proof (rule nth_equalityI)
  show "length (detected (heap w ! a) n) = length (map (any_station (heap w ! a)) [0..<n])"
    by (simp add: detected_def)
next
  fix j assume "j < length (detected (heap w ! a) n)"
  then have j: "j < n" by (simp add: detected_def)
  from assms have "list_all (\<lambda>r. length r = n \<and> list_all (\<lambda>x. x = 0 \<or> x = 1) r) (heap w ! a)"
    by (simp add: trigger_buffer_def)
  from detected_nth [OF this j] show "detected (heap w ! a) n ! j = map (any_station (heap w ! a)) [0..<n] ! j"
    using j by simp
qed

text \<open>
  Claim C3, amended. For a call that returns on a batch that is not empty, with as
  many dot weights and exit probabilities as trials (\<open>n\<close>) and \<open>M\<close> stations, the
  trigger buffer has one row per station and the returned vector is: the area weight
  times the sum of the dot weights over \<open>N * M\<close>; the mean of the exit probabilities
  that are not masked; the number of trials for which some station's indicator is 1
  over \<open>n\<close>; and the sum over the trials that are not masked of area weight, dot
  weight, exit probability and detection indicator over \<open>N * M\<close>. Here \<open>N\<close> is the
  argument \<open>N\<close> of \<open>calculate\<close>, the number of trials asked for, not the size \<open>n\<close> of
  the batch. When every exit probability is masked, the second and the fourth entry
  are the masked constant, stored as \<open>nan\<close>.
\<close>

theorem calculate_aggregates:
  fixes c :: "'f collab" and p :: "'f params" and w w' :: world
  defines "Ag \<equiv> batch_of c p"
    and "n \<equiv> length (trials (batch_of c p))"
    and "M \<equiv> length (stations_geocentric (batch_of c p))"
    and "Px \<equiv> fst (exit_lookup c (batch_of c p))"
    and "rows \<equiv> heap w' ! length (heap w)"
  assumes run: "calculate c src p w = Inr (out, w')"
    and ne: "emergence (batch_of c p) \<noteq> []"
    and d: "length (dot (batch_of c p)) = length (trials (batch_of c p))"
    and px: "length (fst (exit_lookup c (batch_of c p))) = length (trials (batch_of c p))"
  shows "length rows = M \<and> out =
    [true_divide (area Ag * sum_list (dot Ag)) (real_of_int (Ntrials p * int M)),
     (if unmasked Px = [] then NaN
      else Fin (sum_list (unmasked Px) / real (length (unmasked Px)))),
     true_divide (real (card {j. j < n \<and> any_station rows j})) (real n),
     (if unmasked Px = [] then NaN
      else true_divide
        (\<Sum>j | j < n \<and> \<not> snd (Px ! j).
            area Ag * dot Ag ! j * fst (Px ! j) * (if any_station rows j then 1 else 0))
        (real_of_int (Ntrials p * int M)))]"
proof -
  have tb: "trigger_buffer (length (heap w)) M n w'"
    unfolding M_def n_def by (rule calculate_trigger_buffer [OF run ne])
  then have len: "length rows = M" by (simp add: trigger_buffer_def rows_def)
  have det: "detected rows n = map (any_station rows) [0..<n]"
    unfolding rows_def by (rule detected_any_station [OF tb])
  from calculate_Inr [OF run ne]
  have agg: "aggregate p Ag Px (detected rows n) = Inr out"
    unfolding Ag_def Px_def rows_def n_def by blast
  have ldet: "length (detected rows n) = n" by (simp add: detected_def)
  have cnt: "count_true (detected rows n) = card {j. j < n \<and> any_station rows j}"
    unfolding det by (rule count_true_upt)
  have sm: "(\<Sum>j | j < n \<and> \<not> snd (Px ! j).
            area Ag * dot Ag ! j * fst (Px ! j) * (if detected rows n ! j then 1 else 0)) =
        (\<Sum>j | j < n \<and> \<not> snd (Px ! j).
            area Ag * dot Ag ! j * fst (Px ! j) * (if any_station rows j then 1 else 0))"
    by (rule sum.cong) (simp_all add: det)
  have "aggregate p Ag Px (detected rows n) = Inr
    [true_divide (area Ag * sum_list (dot Ag)) (real_of_int (Ntrials p * int M)),
     (if unmasked Px = [] then NaN
      else Fin (sum_list (unmasked Px) / real (length (unmasked Px)))),
     true_divide (real (count_true (detected rows n))) (real n),
     (if unmasked Px = [] then NaN
      else true_divide
        (\<Sum>j | j < n \<and> \<not> snd (Px ! j).
            area Ag * dot Ag ! j * fst (Px ! j) * (if detected rows n ! j then 1 else 0))
        (real_of_int (Ntrials p * int M)))]"
    using aggregate_shaped [of Ag n Px "detected rows n" p] d px ldet
    unfolding Ag_def Px_def n_def M_def by simp
  with agg have "out =
    [true_divide (area Ag * sum_list (dot Ag)) (real_of_int (Ntrials p * int M)),
     (if unmasked Px = [] then NaN
      else Fin (sum_list (unmasked Px) / real (length (unmasked Px)))),
     true_divide (real (count_true (detected rows n))) (real n),
     (if unmasked Px = [] then NaN
      else true_divide
        (\<Sum>j | j < n \<and> \<not> snd (Px ! j).
            area Ag * dot Ag ! j * fst (Px ! j) * (if detected rows n ! j then 1 else 0))
        (real_of_int (Ntrials p * int M)))]"
    by simp
  then show ?thesis
    unfolding cnt sm using len by simp
qed


lemma run_one_trial:
  "calculate (collab_ex (batch_ex [(0, 0, 0)] [1]) [(1/2, False)] 0 10) src_ex (params_ex 2) w0 =
     Inr ([Fin 1, Fin (1/2), Fin 1, Fin (1/2)],
          \<lparr>draws = 1, heap = [[[1]], [[1]], [[0]]],
           calls = [TauExit, SampleRange, SampleShowerEnergies, Voltage 0]\<rparr>)"
  by (simp add: ex_defs calc_defs Let_def)

theorem calculate_aggregates_witness:
  "calculate (collab_ex (batch_ex [(0, 0, 0)] [1]) [(1/2, False)] 0 10) src_ex (params_ex 2) w0 =
     Inr ([Fin 1, Fin (1/2), Fin 1, Fin (1/2)],
          \<lparr>draws = 1, heap = [[[1]], [[1]], [[0]]],
           calls = [TauExit, SampleRange, SampleShowerEnergies, Voltage 0]\<rparr>)
   \<and> emergence (batch_of (collab_ex (batch_ex [(0, 0, 0)] [1]) [(1/2, False)] 0 10) (params_ex 2)) \<noteq> []
   \<and> length ([[[1]], [[1]], [[0::real]]] ! length (heap w0)) = 1
   \<and> card {j. j < (1::nat) \<and> any_station ([[[1]], [[1]], [[0]]] ! length (heap w0)) j} = 1"
proof -
  let ?c = "collab_ex (batch_ex [(0, 0, 0)] [1]) [(1/2, False)] 0 10"
  let ?w = "\<lparr>draws = 1, heap = [[[1]], [[1]], [[0]]],
           calls = [TauExit, SampleRange, SampleShowerEnergies, Voltage 0]\<rparr>"
  have ne: "emergence (batch_of ?c (params_ex 2)) \<noteq> []"
    and d: "length (dot (batch_of ?c (params_ex 2))) = length (trials (batch_of ?c (params_ex 2)))"
    and px: "length (fst (exit_lookup ?c (batch_of ?c (params_ex 2)))) = length (trials (batch_of ?c (params_ex 2)))"
    by (simp_all add: batch_of_def exit_lookup_def ex_defs)
  have card: "card {j. j < (1::nat) \<and> any_station ([[[1]], [[1]], [[0]]] ! length (heap w0)) j} = 1"
  proof -
    have "{j. j < (1::nat) \<and> any_station ([[[1]], [[1]], [[0]]] ! length (heap w0)) j} = {0}"
      by (auto simp: any_station_def w0_def)
    then show ?thesis by simp
  qed
  from calculate_aggregates [OF run_one_trial ne d px]
  have "length (heap ?w ! length (heap w0)) = length (stations_geocentric (batch_of ?c (params_ex 2)))"
    by blast
  then have "length ([[[1]], [[1]], [[0::real]]] ! length (heap w0)) = 1"
    by (simp add: batch_of_def ex_defs)
  then show ?thesis using run_one_trial ne card by blast
qed

text \<open>
  Claim C3 as stated fails: it divides by the size of the batch. A batch of one trial
  returned for \<open>N = 2\<close> gives the geometric coefficient 1 and the effective area 1/2,
  where division by the batch size 1 would give 2 and 1.
\<close>

theorem calculate_divides_by_requested_count:
  "calculate (collab_ex (batch_ex [(0, 0, 0)] [1]) [(1/2, False)] 0 10) src_ex (params_ex 2) w0 =
     Inr ([Fin 1, Fin (1/2), Fin 1, Fin (1/2)],
          \<lparr>draws = 1, heap = [[[1]], [[1]], [[0]]],
           calls = [TauExit, SampleRange, SampleShowerEnergies, Voltage 0]\<rparr>)
   \<and> length (trials (batch_ex [(0, 0, 0)] [1])) = 1
   \<and> length (stations_geocentric (batch_ex [(0, 0, 0)] [1])) = 1
   \<and> true_divide (area (batch_ex [(0, 0, 0)] [1]) * sum_list (dot (batch_ex [(0, 0, 0)] [1])))
        (real (1 * 1)) = Fin 2
   \<and> true_divide (area (batch_ex [(0, 0, 0)] [1]) * 1 * (1/2) * 1) (real (1 * 1)) = Fin 1"
  using run_one_trial by (simp add: batch_ex_def true_divide_def)

section \<open>Ranges of the coefficients\<close>

lemma unmasked_bounds:
  assumes "\<forall>e\<in>set Px. \<not> snd e \<longrightarrow> 0 \<le> fst e \<and> fst e \<le> 1"
  shows "0 \<le> sum_list (unmasked Px) \<and> sum_list (unmasked Px) \<le> real (length (unmasked Px))"
  using assms by (induction Px) (auto simp: unmasked_def)

lemma count_true_le: "count_true bs \<le> length bs"
  by (simp add: count_true_def)

text \<open>
  Claim C9, amended. Let the exit probabilities that are not masked lie in \<open>[0, 1]\<close>
  and the area and dot weights be non-negative. For a call that returns with a positive
  trial count \<open>N\<close>, at least one station, per-trial arrays of one length and, on a batch
  that is not empty, at least one exit probability that is not masked, all four
  coefficients are numbers, \<open>pexit\<close> and \<open>pdet\<close> in \<open>[0, 1]\<close>, \<open>geometric\<close> and
  \<open>effective_area\<close> non-negative.
\<close>

theorem calculate_ranges:
  fixes c :: "'f collab" and p :: "'f params"
  defines "Ag \<equiv> batch_of c p"
    and "Px \<equiv> fst (exit_lookup c (batch_of c p))"
  assumes run: "calculate c src p w = Inr (out, w')"
    and N: "0 < Ntrials p"
    and M: "stations_geocentric Ag \<noteq> []"
    and t: "length (trials Ag) = length (emergence Ag)"
    and d: "length (dot Ag) = length (emergence Ag)"
    and px: "length Px = length (emergence Ag)"
    and prob: "\<forall>e\<in>set Px. \<not> snd e \<longrightarrow> 0 \<le> fst e \<and> fst e \<le> 1"
    and area: "0 \<le> area Ag"
    and dots: "\<forall>x\<in>set (dot Ag). 0 \<le> x"
    and some: "emergence Ag \<noteq> [] \<longrightarrow> unmasked Px \<noteq> []"
  shows "\<exists>g pe pd ea. out = [Fin g, Fin pe, Fin pd, Fin ea]
           \<and> 0 \<le> g \<and> 0 \<le> pe \<and> pe \<le> 1 \<and> 0 \<le> pd \<and> pd \<le> 1 \<and> 0 \<le> ea"
proof (cases "emergence Ag = []")
  case True
  with run have "out = [Fin 0, Fin 0, Fin 0, Fin 0]"
    by (simp add: calculate_def Ag_def Let_def)
  then show ?thesis by simp
next
  case False
  let ?n = "length (trials Ag)"
  let ?M = "length (stations_geocentric Ag)"
  let ?Pdet = "detected (heap w' ! length (heap w)) ?n"
  let ?norm = "real_of_int (Ntrials p * int ?M)"
  let ?h = "\<lambda>j. area Ag * dot Ag ! j * fst (Px ! j) * (if ?Pdet ! j then 1 else 0)"
  from False have ne: "emergence (batch_of c p) \<noteq> []" by (simp add: Ag_def)
  from calculate_Inr [OF run ne]
  have agg: "aggregate p Ag Px ?Pdet = Inr out"
    unfolding Ag_def Px_def by blast
  have um: "unmasked Px \<noteq> []" using some False by simp
  have npos: "0 < ?n" using False t by simp
  have normpos: "0 < ?norm" using N M by simp
  have "aggregate p Ag Px ?Pdet = Inr
    [true_divide (area Ag * sum_list (dot Ag)) ?norm,
     (if unmasked Px = [] then NaN
      else Fin (sum_list (unmasked Px) / real (length (unmasked Px)))),
     true_divide (real (count_true ?Pdet)) (real ?n),
     (if unmasked Px = [] then NaN
      else true_divide (\<Sum>j | j < ?n \<and> \<not> snd (Px ! j). ?h j) ?norm)]"
    by (rule aggregate_shaped) (simp_all add: t d px detected_def)
  with agg um npos N M have out: "out =
    [Fin (area Ag * sum_list (dot Ag) / ?norm),
     Fin (sum_list (unmasked Px) / real (length (unmasked Px))),
     Fin (real (count_true ?Pdet) / real ?n),
     Fin ((\<Sum>j | j < ?n \<and> \<not> snd (Px ! j). ?h j) / ?norm)]"
    by (simp add: true_divide_def)
  have g: "0 \<le> area Ag * sum_list (dot Ag) / ?norm"
    using area dots normpos by (simp add: sum_list_nonneg)
  have pe: "0 \<le> sum_list (unmasked Px) / real (length (unmasked Px))"
     "sum_list (unmasked Px) / real (length (unmasked Px)) \<le> 1"
    using unmasked_bounds [OF prob] um by (simp_all add: divide_le_eq_1)
  have "count_true ?Pdet \<le> ?n"
    using count_true_le [of ?Pdet] by (simp add: detected_def)
  then have pd: "0 \<le> real (count_true ?Pdet) / real ?n" "real (count_true ?Pdet) / real ?n \<le> 1"
    using npos by (simp_all add: divide_le_eq_1)
  have hj: "0 \<le> ?h j" if "j < ?n \<and> \<not> snd (Px ! j)" for j
  proof -
    from that t d px have "dot Ag ! j \<in> set (dot Ag)" "Px ! j \<in> set Px" by simp_all
    with that prob dots have "0 \<le> dot Ag ! j" "0 \<le> fst (Px ! j)" by auto
    with area show ?thesis by simp
  qed
  have "0 \<le> (\<Sum>j | j < ?n \<and> \<not> snd (Px ! j). ?h j)"
    by (rule sum_nonneg) (use hj in simp)
  then have ea: "0 \<le> (\<Sum>j | j < ?n \<and> \<not> snd (Px ! j). ?h j) / ?norm"
    using normpos by simp
  show ?thesis using out g pe pd ea by blast
qed


theorem calculate_ranges_witness:
  "calculate (collab_ex (batch_ex [(0, 0, 0)] [1]) [(1/2, False)] 0 10) src_ex (params_ex 2) w0 =
     Inr ([Fin 1, Fin (1/2), Fin 1, Fin (1/2)],
          \<lparr>draws = 1, heap = [[[1]], [[1]], [[0]]],
           calls = [TauExit, SampleRange, SampleShowerEnergies, Voltage 0]\<rparr>)
   \<and> 0 < Ntrials (params_ex 2)
   \<and> stations_geocentric (batch_of (collab_ex (batch_ex [(0, 0, 0)] [1]) [(1/2, False)] 0 10) (params_ex 2)) \<noteq> []
   \<and> unmasked (fst (exit_lookup (collab_ex (batch_ex [(0, 0, 0)] [1]) [(1/2, False)] 0 10)
         (batch_of (collab_ex (batch_ex [(0, 0, 0)] [1]) [(1/2, False)] 0 10) (params_ex 2)))) = [1/2]
   \<and> (\<exists>g pe pd ea. [Fin 1, Fin (1/2), Fin 1, Fin (1/2)] = [Fin g, Fin pe, Fin pd, Fin ea]
           \<and> 0 \<le> g \<and> 0 \<le> pe \<and> pe \<le> 1 \<and> 0 \<le> pd \<and> pd \<le> 1 \<and> 0 \<le> ea)"
proof -
  let ?c = "collab_ex (batch_ex [(0, 0, 0)] [1]) [(1/2, False)] 0 10"
  let ?Ag = "batch_of ?c (params_ex 2)"
  let ?Px = "fst (exit_lookup ?c ?Ag)"
  have N: "0 < Ntrials (params_ex 2)" by (simp add: params_ex_def)
  have Ag: "?Ag = batch_ex [(0, 0, 0)] [1]" by (simp add: batch_of_def collab_ex_def)
  have Px: "?Px = [(1/2, False)]" by (simp add: exit_lookup_def collab_ex_def)
  have M: "stations_geocentric ?Ag \<noteq> []"
    and t: "length (trials ?Ag) = length (emergence ?Ag)"
    and d: "length (dot ?Ag) = length (emergence ?Ag)"
    and area: "0 \<le> area ?Ag"
    and dots: "\<forall>x\<in>set (dot ?Ag). 0 \<le> x"
    unfolding Ag by (simp_all add: batch_ex_def)
  have px: "length ?Px = length (emergence ?Ag)"
    and prob: "\<forall>e\<in>set ?Px. \<not> snd e \<longrightarrow> 0 \<le> fst e \<and> fst e \<le> 1"
    and some: "emergence ?Ag \<noteq> [] \<longrightarrow> unmasked ?Px \<noteq> []"
    and um: "unmasked ?Px = [1/2]"
    by (simp_all add: batch_of_def exit_lookup_def collab_ex_def batch_ex_def unmasked_def)
  from calculate_ranges [OF run_one_trial N M t d px prob area dots some]
  show ?thesis using run_one_trial N M um by blast
qed

text \<open>
  Claim C9 as stated fails. When the one exit probability of the batch is masked (no
  tau exits), \<open>pexit\<close> and \<open>effective_area\<close> are the masked constant, stored as
  \<open>nan\<close>; with the trial count \<open>-1\<close>, which nothing in \<open>calculate\<close> refuses,
  \<open>geometric\<close> and \<open>effective_area\<close> are negative.
\<close>

theorem calculate_out_of_range:
  "calculate (collab_ex (batch_ex [(0, 0, 0)] [1]) [(0, True)] 0 10) src_ex (params_ex 1) w0 =
     Inr ([Fin 2, NaN, Fin 1, NaN],
          \<lparr>draws = 1, heap = [[[1]], [[1]], [[0]]],
           calls = [TauExit, SampleRange, SampleShowerEnergies, Voltage 0]\<rparr>)
   \<and> calculate (collab_ex (batch_ex [(0, 0, 0)] [1]) [(1/2, False)] 0 10) src_ex (params_ex (-1)) w0 =
     Inr ([Fin (-2), Fin (1/2), Fin 1, Fin (-1)],
          \<lparr>draws = 1, heap = [[[1]], [[1]], [[0]]],
           calls = [TauExit, SampleRange, SampleShowerEnergies, Voltage 0]\<rparr>)"
  by (simp add: ex_defs calc_defs Let_def)

section \<open>The rows of the trigger buffer\<close>

lemma for_stations_rows:
  assumes "for_stations (station c p Ag ph a) [k..<m] w = Inr w'"
    and "a < length (heap w)" and "length (heap w ! a) = m"
  shows "length (heap w' ! a) = m \<and>
     (\<forall>i<m. if i < k then heap w' ! a ! i = heap w ! a ! i
            else (\<exists>ev. station_eval c p Ag ph i = Inr ev \<and>
                   mask_set (heap w ! a ! i) (in_sight ev)
                     (map (\<lambda>x. if np_greater x (trigger_SNR p) then 1 else 0) (SNR ev)) =
                   Inr (heap w' ! a ! i)))"
  using assms
proof (induction "m - k" arbitrary: k w)
  case 0
  then have "[k..<m] = []" by simp
  with "0.prems" have "w' = w" by simp
  with 0 show ?case by auto
next
  case (Suc d)
  then have km: "k < m" by simp
  then have upt: "[k..<m] = k # [Suc k..<m]" by (simp add: upt_conv_Cons)
  from Suc.prems(1) [unfolded upt] obtain w1 where
    s: "station c p Ag ph a k w = Inr w1"
    and r: "for_stations (station c p Ag ph a) [Suc k..<m] w1 = Inr w'"
    by (auto simp: bind_r_eq_Inr)
  from station_Inr [OF s Suc.prems(2)] obtain ev xs where
    ev: "station_eval c p Ag ph k = Inr ev"
    and xs: "mask_set (heap w ! a ! k) (in_sight ev)
           (map (\<lambda>x. if np_greater x (trigger_SNR p) then 1 else 0) (SNR ev)) = Inr xs"
    and h1: "heap w1 ! a = (heap w ! a)[k := xs]"
    and l1: "length (heap w1) = length (heap w) + 2"
    by (elim exE conjE) (rule that)
  have a1: "a < length (heap w1)" using l1 Suc.prems(2) by simp
  have m1: "length (heap w1 ! a) = m" using h1 Suc.prems(3) by simp
  have d: "d = m - Suc k" using Suc.hyps(2) by simp
  from Suc.hyps(1) [OF d r a1 m1] have
    len: "length (heap w' ! a) = m"
    and IH: "\<And>i. i < m \<Longrightarrow> (if i < Suc k then heap w' ! a ! i = heap w1 ! a ! i
            else (\<exists>ev. station_eval c p Ag ph i = Inr ev \<and>
                   mask_set (heap w1 ! a ! i) (in_sight ev)
                     (map (\<lambda>x. if np_greater x (trigger_SNR p) then 1 else 0) (SNR ev)) =
                   Inr (heap w' ! a ! i)))"
    by blast+
  have "if i < k then heap w' ! a ! i = heap w ! a ! i
            else (\<exists>ev. station_eval c p Ag ph i = Inr ev \<and>
                   mask_set (heap w ! a ! i) (in_sight ev)
                     (map (\<lambda>x. if np_greater x (trigger_SNR p) then 1 else 0) (SNR ev)) =
                   Inr (heap w' ! a ! i))" if i: "i < m" for i
  proof -
    consider (lt) "i < k" | (eq) "i = k" | (gt) "k < i" by linarith
    then show ?thesis
    proof cases
      case lt
      with IH [OF i] h1 show ?thesis by simp
    next
      case eq
      with IH [OF i] h1 km Suc.prems(3) have "heap w' ! a ! k = xs" by simp
      with eq ev xs show ?thesis by auto
    next
      case gt
      with IH [OF i] h1 show ?thesis by simp
    qed
  qed
  with len show ?case by blast
qed


text \<open>
  What the loop leaves in the trigger buffer, for every call that returns: row \<open>i\<close>
  is the row of zeros with the values \<open>SNR > trigger_SNR\<close> of station \<open>i\<close> written
  at the trials in sight. The masks \<open>invisible\<close> and \<open>elev > 0.0\<close> of lines 182 and
  186 do not appear: they were applied to copies.
\<close>

lemma calculate_trigger_rows:
  assumes run: "calculate c src p w = Inr (out, w')"
    and ne: "emergence (batch_of c p) \<noteq> []"
  shows "\<exists>ph w1. prepare c src p (batch_of c p) w = Inr (ph, w1)
     \<and> length (heap w' ! length (heap w)) = length (stations_geocentric (batch_of c p))
     \<and> (\<forall>i<length (stations_geocentric (batch_of c p)).
          \<exists>ev. station_eval c p (batch_of c p) ph i = Inr ev \<and>
            mask_set (replicate (length (trials (batch_of c p))) 0) (in_sight ev)
              (map (\<lambda>x. if np_greater x (trigger_SNR p) then 1 else 0) (SNR ev)) =
            Inr (heap w' ! length (heap w) ! i))"
proof -
  let ?Ag = "batch_of c p"
  let ?m = "length (stations_geocentric ?Ag)"
  let ?n = "length (trials ?Ag)"
  let ?a = "length (heap w)"
  from calculate_Inr [OF run ne] obtain ph w1 where
    pr: "prepare c src p ?Ag w = Inr (ph, w1)"
    and lp: "for_stations (station c p ?Ag ph ?a) [0..<?m]
          (w1\<lparr>heap := heap w1 @ [replicate ?m (replicate ?n 0)]\<rparr>) = Inr w'"
    by blast
  let ?w2 = "w1\<lparr>heap := heap w1 @ [replicate ?m (replicate ?n 0)]\<rparr>"
  from prepare_Inr [OF pr] have h: "heap w1 = heap w" by simp
  have a: "?a < length (heap ?w2)" by (simp add: h)
  have z: "heap ?w2 ! ?a = replicate ?m (replicate ?n 0)" by (simp add: h)
  have m: "length (heap ?w2 ! ?a) = ?m" unfolding z by simp
  from for_stations_rows [OF lp a m] have
    len: "length (heap w' ! ?a) = ?m"
    and rows: "\<And>i. i < ?m \<Longrightarrow> \<exists>ev. station_eval c p ?Ag ph i = Inr ev \<and>
                   mask_set (heap ?w2 ! ?a ! i) (in_sight ev)
                     (map (\<lambda>x. if np_greater x (trigger_SNR p) then 1 else 0) (SNR ev)) =
                   Inr (heap w' ! ?a ! i)"
    by auto
  have "\<exists>ev. station_eval c p ?Ag ph i = Inr ev \<and>
            mask_set (replicate ?n 0) (in_sight ev)
              (map (\<lambda>x. if np_greater x (trigger_SNR p) then 1 else 0) (SNR ev)) =
            Inr (heap w' ! ?a ! i)" if "i < ?m" for i
    using rows [OF that] that unfolding z by simp
  with pr len show ?thesis by blast
qed

section \<open>The decay lengths and shower energies of the batch\<close>

lemma sample_range_returns:
  assumes "list_all (\<lambda>e. snd e \<or> 0 \<le> fst e) Et"
  shows "sample_range src Et w =
     Inr (map2 (\<lambda>s k. s * (- ln (1 - src k))) (ma_rmul (49 / 10 ^ 18) Et)
            [draws w ..< draws w + length Et],
          w\<lparr>draws := draws w + length Et\<rparr>)"
proof -
  have "\<not> list_ex (\<lambda>s. s < 0) (ma_rmul (49 / 10 ^ 18) Et)"
    using assms
    by (auto simp: ma_rmul_def list_ex_iff list_all_iff not_less split: if_splits)
  then show ?thesis
    by (simp add: sample_range_def random_exponential_def ma_rmul_def)
qed

lemma sample_range_raises:
  assumes "list_ex (\<lambda>e. \<not> snd e \<and> fst e < 0) Et"
  shows "sample_range src Et w = Inl ValueError"
proof -
  from assms obtain e where e: "e \<in> set Et" "\<not> snd e" "fst e < 0"
    by (auto simp: list_ex_iff)
  then have "49 / 10 ^ 18 * fst e \<in> set (ma_rmul (49 / 10 ^ 18) Et)"
    by (force simp: ma_rmul_def)
  moreover have "49 / 10 ^ 18 * fst e < 0"
    using e(3) by (simp add: mult_less_0_iff)
  ultimately have "list_ex (\<lambda>s. s < 0) (ma_rmul (49 / 10 ^ 18) Et)"
    unfolding list_ex_iff by blast
  then show ?thesis
    by (simp add: sample_range_def random_exponential_def)
qed

lemma tauola_sample_shower_energies_spec_eq:
  assumes "0 < Nem decays" "0 < Nhad decays"
  shows "tauola_sample_shower_energies_spec src decays E n d =
     Inr (map (\<lambda>i. fst (E ! i) * fraction_of decays (label_of decays (src (d + 2 * i)))
                       (src (d + 2 * i + 1))) [0..<length E],
          d + 2 * length E)"
  by (simp add: tauola_sample_shower_energies_spec_def sample_shower_energies_eq [OF assms])

lemma exit_lookup_tauola_collab [simp]:
  "exit_lookup (tauola_collab src decays c) Ag = exit_lookup c Ag"
  by (simp add: exit_lookup_def tauola_collab_def)

lemma prepare_tauola_collab:
  fixes c :: "'f collab"
  assumes em: "0 < Nem decays" and had: "0 < Nhad decays"
    and pos: "nonnegative_energies c Ag"
    and len: "length (snd (exit_lookup c Ag)) = length (trials Ag)"
  shows "\<exists>ph w1. prepare (tauola_collab src decays c) src p Ag w = Inr (ph, w1)
     \<and> Etau ph = snd (exit_lookup c Ag)
     \<and> Eshower ph =
         map (\<lambda>i. fst (snd (exit_lookup c Ag) ! i) *
                  fraction_of decays
                    (label_of decays (src (draws w + length (snd (exit_lookup c Ag)) + 2 * i)))
                    (src (draws w + length (snd (exit_lookup c Ag)) + 2 * i + 1)))
           [0..<length (snd (exit_lookup c Ag))]
     \<and> draws w1 = draws w + 3 * length (snd (exit_lookup c Ag))"
proof -
  let ?c = "tauola_collab src decays c"
  obtain Px Et where el: "exit_lookup c Ag = (Px, Et)" by (cases "exit_lookup c Ag")
  then have el': "exit_lookup ?c Ag = (Px, Et)" by simp
  from pos el have nn: "list_all (\<lambda>e. snd e \<or> 0 \<le> fst e) Et"
    by (simp add: nonnegative_energies_def)
  from len el have et: "length Et = length (trials Ag)" by simp
  let ?w1 = "w\<lparr>calls := calls w @ [TauExit, SampleRange]\<rparr>"
  let ?dl = "map2 (\<lambda>s k. s * (- ln (1 - src k))) (ma_rmul (49 / 10 ^ 18) Et)
               [draws w ..< draws w + length Et]"
  have sr: "sample_range src Et ?w1 = Inr (?dl, ?w1\<lparr>draws := draws w + length Et\<rparr>)"
    using sample_range_returns [OF nn, of src ?w1] by simp
  have ldl: "length ?dl = length (trials Ag)" using et by (simp add: ma_rmul_def)
  have sm: "tauola_sample_shower_energies ?c = tauola_sample_shower_energies_spec src decays"
    by (simp add: tauola_collab_def)
  have bc: "broadcast2 vadd (trials Ag) (map (\<lambda>l. vscale l (axis Ag)) ?dl) =
      Inr (map2 vadd (trials Ag) (map (\<lambda>l. vscale l (axis Ag)) ?dl))"
    using ldl by (simp add: broadcast2_def)
  show ?thesis
    unfolding prepare_def el' el
    using sr bc
    by (simp add: Let_def split_beta sm tauola_sample_shower_energies_spec_eq [OF em had]
        add.assoc)
qed

text \<open>
  Claim C4. With the element-wise sampler in the place of the absent function and a
  decay table that has a shower of each category, lines 87 to 115 of \<open>calculate\<close>
  return, on a batch with one tau energy per trial and none negative unless masked, and
  leave exactly one shower energy per tau energy. The shower energy of an entry that is
  not masked is its tau energy times the fraction
  \<open>sample_energy_fraction\<close> draws for the one type \<open>sample_shower_type\<close> draws for that
  entry, each entry with two variates of its own, taken after the variates of the decay
  lengths. The two draws are the functions of \<open>tauola.py\<close>; the sampler that composes
  them is the one modelled from the specification.
\<close>

theorem prepare_samples_shower_energies_elementwise:
  fixes c :: "'f collab"
  assumes em: "0 < Nem decays" and had: "0 < Nhad decays"
    and pos: "nonnegative_energies c Ag"
    and len: "length (snd (exit_lookup c Ag)) = length (trials Ag)"
  shows "\<exists>ph w1. prepare (tauola_collab src decays c) src p Ag w = Inr (ph, w1)
     \<and> Etau ph = snd (exit_lookup c Ag)
     \<and> length (Eshower ph) = length (Etau ph)
     \<and> draws w1 = draws w + 3 * length (Etau ph)
     \<and> (\<forall>i<length (Etau ph). \<not> snd (Etau ph ! i) \<longrightarrow> (\<exists>t f.
           sample_shower_type src decays 1 (w\<lparr>draws := draws w + length (Etau ph) + 2 * i\<rparr>) =
             Inr ([t], w\<lparr>draws := draws w + length (Etau ph) + 2 * i + 1\<rparr>)
         \<and> sample_energy_fraction src decays [t]
               (w\<lparr>draws := draws w + length (Etau ph) + 2 * i + 1\<rparr>) =
             Inr ([f], w\<lparr>draws := draws w + length (Etau ph) + 2 * i + 2\<rparr>)
         \<and> Eshower ph ! i = fst (Etau ph ! i) * f))"
proof -
  let ?Et = "snd (exit_lookup c Ag)"
  let ?d = "draws w + length ?Et"
  let ?f = "\<lambda>i. fraction_of decays (label_of decays (src (?d + 2 * i))) (src (?d + 2 * i + 1))"
  from prepare_tauola_collab [OF em had pos len, of src p w] obtain ph w1 where
    run: "prepare (tauola_collab src decays c) src p Ag w = Inr (ph, w1)"
    and et: "Etau ph = ?Et"
    and es: "Eshower ph = map (\<lambda>i. fst (?Et ! i) * ?f i) [0..<length ?Et]"
    and dr: "draws w1 = draws w + 3 * length ?Et"
    by blast
  have step: "sample_shower_type src decays 1 (w\<lparr>draws := ?d + 2 * i\<rparr>) =
             Inr ([label_of decays (src (?d + 2 * i))], w\<lparr>draws := ?d + 2 * i + 1\<rparr>)
     \<and> sample_energy_fraction src decays [label_of decays (src (?d + 2 * i))]
             (w\<lparr>draws := ?d + 2 * i + 1\<rparr>) =
             Inr ([?f i], w\<lparr>draws := ?d + 2 * i + 2\<rparr>)
     \<and> Eshower ph ! i = fst (?Et ! i) * ?f i" if "i < length ?Et" for i
    using that by (simp add: es sample_shower_type_one sample_energy_fraction_eq [OF em had])
  have ls: "length (Eshower ph) = length (Etau ph)" by (simp add: es et)
  have dr': "draws w1 = draws w + 3 * length (Etau ph)" by (simp add: dr et)
  have each: "\<forall>i<length (Etau ph). \<not> snd (Etau ph ! i) \<longrightarrow> (\<exists>t f.
           sample_shower_type src decays 1 (w\<lparr>draws := draws w + length (Etau ph) + 2 * i\<rparr>) =
             Inr ([t], w\<lparr>draws := draws w + length (Etau ph) + 2 * i + 1\<rparr>)
         \<and> sample_energy_fraction src decays [t]
               (w\<lparr>draws := draws w + length (Etau ph) + 2 * i + 1\<rparr>) =
             Inr ([f], w\<lparr>draws := draws w + length (Etau ph) + 2 * i + 2\<rparr>)
         \<and> Eshower ph ! i = fst (Etau ph ! i) * f)"
    unfolding et using step by blast
  show ?thesis
    using run et ls dr' each by blast
qed

theorem prepare_samples_shower_energies_elementwise_witness:
  "0 < Nem decays_ex \<and> 0 < Nhad decays_ex
   \<and> nonnegative_energies
        (collab_tau (batch_ex [(0, 0, 0), (0, 0, 0)] [1, 1]) [(1/2, False), (1/2, False)]
           [(8, False), (16, False)])
        (batch_ex [(0, 0, 0), (0, 0, 0)] [1, 1])
   \<and> length (snd (exit_lookup
        (collab_tau (batch_ex [(0, 0, 0), (0, 0, 0)] [1, 1]) [(1/2, False), (1/2, False)]
           [(8, False), (16, False)])
        (batch_ex [(0, 0, 0), (0, 0, 0)] [1, 1]))) =
      length (trials (batch_ex [(0, 0, 0), (0, 0, 0)] [1, 1]))
   \<and> (\<exists>ph w1. prepare
        (tauola_collab src_ex decays_ex
           (collab_tau (batch_ex [(0, 0, 0), (0, 0, 0)] [1, 1]) [(1/2, False), (1/2, False)]
              [(8, False), (16, False)]))
        src_ex (params_ex 2) (batch_ex [(0, 0, 0), (0, 0, 0)] [1, 1]) w0 = Inr (ph, w1)
      \<and> Etau ph = [(8, False), (16, False)] \<and> Eshower ph = [6, 12] \<and> draws w1 = 6)"
proof -
  let ?Ag = "batch_ex [(0, 0, 0), (0, 0, 0)] [1, 1]"
  let ?c = "collab_tau ?Ag [(1/2, False), (1/2, False)] [(8, False), (16, False)]"
  have em: "0 < Nem decays_ex" and had: "0 < Nhad decays_ex"
    by (simp_all add: decays_ex_def row_def Nem_def Nhad_def count_true_def)
  have el: "snd (exit_lookup ?c ?Ag) = [(8, False), (16, False)]"
    by (simp add: exit_lookup_def collab_tau_def)
  have pos: "nonnegative_energies ?c ?Ag"
    unfolding nonnegative_energies_def el by simp
  have len: "length (snd (exit_lookup ?c ?Ag)) = length (trials ?Ag)"
    unfolding el by (simp add: batch_ex_def)
  from prepare_samples_shower_energies_elementwise [OF em had pos len, of src_ex "params_ex 2" w0]
  obtain ph w1 where
    run: "prepare (tauola_collab src_ex decays_ex ?c) src_ex (params_ex 2) ?Ag w0 = Inr (ph, w1)"
    and et: "Etau ph = [(8, False), (16, False)]"
    and dr: "draws w1 = draws w0 + 3 * length (Etau ph)"
    and each: "\<forall>i<length (Etau ph). \<not> snd (Etau ph ! i) \<longrightarrow> (\<exists>t f.
           sample_shower_type src_ex decays_ex 1 (w0\<lparr>draws := draws w0 + length (Etau ph) + 2 * i\<rparr>) =
             Inr ([t], w0\<lparr>draws := draws w0 + length (Etau ph) + 2 * i + 1\<rparr>)
         \<and> sample_energy_fraction src_ex decays_ex [t]
               (w0\<lparr>draws := draws w0 + length (Etau ph) + 2 * i + 1\<rparr>) =
             Inr ([f], w0\<lparr>draws := draws w0 + length (Etau ph) + 2 * i + 2\<rparr>)
         \<and> Eshower ph ! i = fst (Etau ph ! i) * f)"
    and ls: "length (Eshower ph) = length (Etau ph)"
    unfolding el by blast
  have frac: "fraction_of decays_ex (label_of decays_ex (1/4)) (3/4) = 3/4"
    by (simp add: label_of_def fraction_of_def interp1_def np_arange_def exceeds_def
        true_divide_def decays_ex_def row_def Nem_def Nhad_def Nshowers_def Eem_def Ehad_def
        count_true_def Hadronic_def Electromagnetic_def upt_rec)
  have e0: "Eshower ph ! 0 = 6"
    using each [rule_format, of 0]
    by (auto simp: et w0_def src_ex_def sample_shower_type_one
        sample_energy_fraction_eq [OF em had] frac)
  have e1: "Eshower ph ! 1 = 12"
    using each [rule_format, of 1]
    by (auto simp: et w0_def src_ex_def sample_shower_type_one
        sample_energy_fraction_eq [OF em had] frac)
  have "Eshower ph = [6, 12]"
    using ls e0 e1 unfolding et
    by (cases "Eshower ph"; cases "tl (Eshower ph)") auto
  moreover have "draws w1 = 6" using dr by (simp add: et w0_def)
  ultimately show ?thesis using em had pos len run et by blast
qed

section \<open>Calls that return, and what is not checked\<close>

















text \<open>
  The one value of the batch that \<open>calculate\<close> can raise on: a tau energy that is
  negative and not masked makes line 90 raise ValueError, whatever the trial count.
\<close>

lemma calculate_negative_energy_raises:
  assumes ne: "emergence (batch_of c p) \<noteq> []"
    and neg: "\<not> nonnegative_energies c (batch_of c p)"
  shows "calculate c src p w = Inl ValueError"
proof -
  obtain Px Et where el: "exit_lookup c (batch_of c p) = (Px, Et)"
    by (cases "exit_lookup c (batch_of c p)")
  from neg el have "list_ex (\<lambda>e. \<not> snd e \<and> fst e < 0) Et"
    by (auto simp: nonnegative_energies_def list_ex_iff list_all_iff not_le)
  from sample_range_raises [OF this]
  have "prepare c src p (batch_of c p) w = Inl ValueError"
    by (simp add: prepare_def el Let_def)
  with ne show ?thesis by (simp add: calculate_def Let_def)
qed

text \<open>
  One trial whose tau energy is \<open>-1\<close>: masked, line 90 draws its decay length with
  the scale \<open>4.9e-17\<close> and the call returns; not masked, the call raises ValueError.
\<close>

lemma calculate_masked_energy_ignored:
  "calculate (collab_tau (batch_ex [(0, 0, 0)] [1]) [(1/2, False)] [(- 1, True)])
      src_ex (params_ex 1) w0 =
     Inr ([Fin 2, Fin (1/2), Fin 1, Fin 1],
          \<lparr>draws = 1, heap = [[[1]], [[1]], [[0]]],
           calls = [TauExit, SampleRange, SampleShowerEnergies, Voltage 0]\<rparr>)
   \<and> calculate (collab_tau (batch_ex [(0, 0, 0)] [1]) [(1/2, False)] [(- 1, False)])
      src_ex (params_ex 1) w0 = Inl ValueError"
  by (simp add: collab_tau_def ex_defs calc_defs Let_def)




end
